theory Spec2Isabelle
  imports Complex_Main "HOL-Library.Monad_Syntax"
begin

section \<open>Vectors and indexed access\<close>

text \<open>
  The vectors of the program (\<open>Eigen::VectorXd\<close>, \<open>CPPAD_TESTVECTOR(double)\<close>,
  \<open>CPPAD_TESTVECTOR(AD<double>)\<close>) are lists; \<open>double\<close> and \<open>AD<double>\<close> values are
  real numbers. Every \<open>v[i]\<close> of the source is a checked access: an index outside the
  vector stops the computation (\<open>None\<close>), as the index assertions of the two vector
  libraries do, and nothing is read or written there.
\<close>

type_synonym vec = "real list"

definition rd :: "vec \<Rightarrow> nat \<Rightarrow> real option" where
  "rd xs i = (if i < length xs then Some (xs ! i) else None)"

definition wr :: "vec \<Rightarrow> nat \<Rightarrow> real \<Rightarrow> vec option" where
  "wr xs i v = (if i < length xs then Some (xs[i := v]) else None)"

text \<open>\<open>v[i] += e\<close>\<close>

definition add_assign :: "vec \<Rightarrow> nat \<Rightarrow> real \<Rightarrow> vec option" where
  "add_assign xs i e = do { c \<leftarrow> rd xs i; wr xs i (c + e) }"

text \<open>
  \<open>for (int i = lo; i < hi; i++) body\<close>, for a body that does not assign \<open>i\<close>: the
  body runs for \<open>lo, lo + 1, ..., hi - 1\<close> in this order on the state it updates and
  the loop stops at the first failing access.
\<close>

definition for_loop :: "nat \<Rightarrow> nat \<Rightarrow> (nat \<Rightarrow> 's \<Rightarrow> 's option) \<Rightarrow> 's \<Rightarrow> 's option" where
  "for_loop lo hi body s = fold (\<lambda>i r. Option.bind r (body i)) [lo..<hi] (Some s)"

text \<open>
  \<open>Dvector v(n)\<close>: a vector of \<open>n\<close> value-initialised doubles. \<open>Eigen::VectorXd v(n)\<close>
  leaves its coefficients uninitialised instead: a coefficient of such a vector is a
  cell, \<open>None\<close> until it is assigned.
\<close>

definition Dvector :: "nat \<Rightarrow> vec" where
  "Dvector n = replicate n 0"

type_synonym cells = "real option list"

definition VectorXd :: "nat \<Rightarrow> cells" where
  "VectorXd n = replicate n None"

definition assign :: "cells \<Rightarrow> nat \<Rightarrow> real \<Rightarrow> cells option" where
  "assign cs i v = (if i < length cs then Some (cs[i := Some v]) else None)"

section \<open>Constants and the layout of the trajectory vector (MPC.cpp, lines 9-23)\<close>

definition Lf :: real where "Lf = 2.67"
definition N :: nat where "N = 11"
definition dt :: real where "dt = 0.1"

definition x_start :: nat where "x_start = 0"
definition y_start :: nat where "y_start = x_start + N"
definition psi_start :: nat where "psi_start = y_start + N"
definition v_start :: nat where "v_start = psi_start + N"
definition cte_start :: nat where "cte_start = v_start + N"
definition epsi_start :: nat where "epsi_start = cte_start + N"
definition delta_start :: nat where "delta_start = epsi_start + N"
definition a_start :: nat where "a_start = delta_start + N - 1"

section \<open>The cost and constraint builder (class FG_eval)\<close>

record FG_eval =
  coeffs :: vec
  ref_cte :: real
  ref_epsi :: real
  ref_v :: real

definition FG_eval_new :: "vec \<Rightarrow> real \<Rightarrow> real \<Rightarrow> real \<Rightarrow> FG_eval" where
  "FG_eval_new cs cte_ref epsi_ref v_ref =
     \<lparr>coeffs = cs, ref_cte = cte_ref, ref_epsi = epsi_ref, ref_v = v_ref\<rparr>"

text \<open>The body of the loop of lines 47-51: the cost of the reference state.\<close>

definition cost_reference :: "FG_eval \<Rightarrow> vec \<Rightarrow> nat \<Rightarrow> vec \<Rightarrow> vec option" where
  "cost_reference self vars i fg = do {
     cte \<leftarrow> rd vars (cte_start + i);
     fg \<leftarrow> add_assign fg 0 (16 * (cte - ref_cte self)\<^sup>2);
     epsi \<leftarrow> rd vars (epsi_start + i);
     fg \<leftarrow> add_assign fg 0 (12 * (epsi - ref_epsi self)\<^sup>2);
     v \<leftarrow> rd vars (v_start + i);
     add_assign fg 0 ((v - ref_v self)\<^sup>2)
   }"

text \<open>The body of the loop of lines 54-57: the use of the actuators.\<close>

definition cost_actuators :: "vec \<Rightarrow> nat \<Rightarrow> vec \<Rightarrow> vec option" where
  "cost_actuators vars i fg = do {
     delta \<leftarrow> rd vars (delta_start + i);
     fg \<leftarrow> add_assign fg 0 (8 * delta\<^sup>2);
     a \<leftarrow> rd vars (a_start + i);
     add_assign fg 0 (6 * a\<^sup>2)
   }"

text \<open>The body of the loop of lines 60-63: the gap between sequential actuations.\<close>

definition cost_gaps :: "vec \<Rightarrow> nat \<Rightarrow> vec \<Rightarrow> vec option" where
  "cost_gaps vars i fg = do {
     delta1 \<leftarrow> rd vars (delta_start + i + 1);
     delta0 \<leftarrow> rd vars (delta_start + i);
     fg \<leftarrow> add_assign fg 0 (400 * (delta1 - delta0)\<^sup>2);
     a1 \<leftarrow> rd vars (a_start + i + 1);
     a0 \<leftarrow> rd vars (a_start + i);
     add_assign fg 0 (10 * (a1 - a0)\<^sup>2)
   }"

text \<open>The body of the loop of lines 74-105: the constraints of one pair of timesteps.\<close>

definition constraint_step :: "FG_eval \<Rightarrow> vec \<Rightarrow> nat \<Rightarrow> vec \<Rightarrow> vec option" where
  "constraint_step self vars i fg = do {
     x1 \<leftarrow> rd vars (x_start + i + 1);
     y1 \<leftarrow> rd vars (y_start + i + 1);
     psi1 \<leftarrow> rd vars (psi_start + i + 1);
     v1 \<leftarrow> rd vars (v_start + i + 1);
     cte1 \<leftarrow> rd vars (cte_start + i + 1);
     epsi1 \<leftarrow> rd vars (epsi_start + i + 1);
     x \<leftarrow> rd vars (x_start + i);
     y \<leftarrow> rd vars (y_start + i);
     psi \<leftarrow> rd vars (psi_start + i);
     v \<leftarrow> rd vars (v_start + i);
     cte \<leftarrow> rd vars (cte_start + i);
     epsi \<leftarrow> rd vars (epsi_start + i);
     delta \<leftarrow> rd vars (delta_start + i);
     alpha \<leftarrow> rd vars (a_start + i);
     c0 \<leftarrow> rd (coeffs self) 0;
     c1 \<leftarrow> rd (coeffs self) 1;
     c2 \<leftarrow> rd (coeffs self) 2;
     c3 \<leftarrow> rd (coeffs self) 3;
     let f_x = c0 + c1 * x + c2 * x\<^sup>2 + c3 * x ^ 3;
     c1' \<leftarrow> rd (coeffs self) 1;
     c3' \<leftarrow> rd (coeffs self) 3;
     c3'' \<leftarrow> rd (coeffs self) 3;
     let psi_des = arctan (c1' + (2 * c3' * x) + (3 * c3'' * x\<^sup>2));
     fg \<leftarrow> wr fg (2 + x_start + i) (x1 - (x + v * cos psi * dt));
     fg \<leftarrow> wr fg (2 + y_start + i) (y1 - (y + v * sin psi * dt));
     fg \<leftarrow> wr fg (2 + psi_start + i) (psi1 - (psi + v * delta / Lf * dt));
     fg \<leftarrow> wr fg (2 + v_start + i) (v1 - (v + alpha * dt));
     fg \<leftarrow> wr fg (2 + cte_start + i) (cte1 - ((f_x - y) + (v * sin epsi * dt)));
     wr fg (2 + epsi_start + i) (epsi1 - ((psi - psi_des) + v * delta / Lf * dt))
   }"

text \<open>
  \<open>FG_eval::operator()(fg, vars)\<close>, lines 41-106: \<open>fg\<close> is updated in place, so the
  vector received is an argument and the vector left behind is the result.
\<close>

definition operator_call :: "FG_eval \<Rightarrow> vec \<Rightarrow> vec \<Rightarrow> vec option" where
  "operator_call self fg vars = do {
     fg \<leftarrow> wr fg 0 0;
     fg \<leftarrow> for_loop 0 N (cost_reference self vars) fg;
     fg \<leftarrow> for_loop 0 (N - 1) (cost_actuators vars) fg;
     fg \<leftarrow> for_loop 0 (N - 2) (cost_gaps vars) fg;
     x0 \<leftarrow> rd vars x_start;
     fg \<leftarrow> wr fg (1 + x_start) x0;
     y0 \<leftarrow> rd vars y_start;
     fg \<leftarrow> wr fg (1 + y_start) y0;
     psi0 \<leftarrow> rd vars psi_start;
     fg \<leftarrow> wr fg (1 + psi_start) psi0;
     v0 \<leftarrow> rd vars v_start;
     fg \<leftarrow> wr fg (1 + v_start) v0;
     cte0 \<leftarrow> rd vars cte_start;
     fg \<leftarrow> wr fg (1 + cte_start) cte0;
     epsi0 \<leftarrow> rd vars epsi_start;
     fg \<leftarrow> wr fg (1 + epsi_start) epsi0;
     for_loop 0 (N - 1) (constraint_step self vars) fg
   }"

section \<open>The controller (class MPC)\<close>

text \<open>
  The members \<open>N_\<close>, \<open>dt_\<close>, \<open>ref_cte_\<close>, \<open>ref_epsi_\<close> and \<open>ref_v_\<close>; a name
  cannot end with an underscore here, so each carries the prefix \<open>m_\<close> instead.
\<close>

record MPC =
  m_N :: nat
  m_dt :: real
  m_ref_cte :: real
  m_ref_epsi :: real
  m_ref_v :: real

definition Init :: "MPC \<Rightarrow> real \<Rightarrow> real \<Rightarrow> real \<Rightarrow> MPC" where
  "Init self cte_ref epsi_ref v_ref =
     self\<lparr>m_ref_cte := cte_ref, m_ref_epsi := epsi_ref, m_ref_v := v_ref\<rparr>"

subsection \<open>The external solver\<close>

text \<open>
  \<open>CppAD::ipopt::solve\<close> is not part of the program. Its arguments are collected in a
  record and its result is the part of \<open>solve_result\<close> that \<open>Solve\<close> reads (the member
  \<open>x\<close> is the field \<open>sol_x\<close>). What the solver computes is a parameter of \<open>Solve\<close>: any
  function from the one to the other. What the solver does with the program is not: it
  evaluates the builder, \<open>FG_eval::operator()\<close>, the first time on the start vector \<open>xi\<close>
  with an \<open>fg\<close> of one objective and one value for each constraint, to record its
  operations. An access that stops the builder there ends the call of the solver and of
  \<open>Solve\<close>. The accesses of the builder depend on the sizes of its vectors only
  (lemma \<open>operator_call_None_iff\<close>), and these are the same at every evaluation, so no
  later evaluation stops when the first one has returned.
\<close>

datatype status_type =
  not_defined | success | maxiter_exceeded | stop_at_tiny_step | stop_at_acceptable_point
  | local_infeasibility | user_requested_stop | feasible_point_found | diverging_iterates
  | restoration_failure | error_in_step_computation | invalid_number_detected
  | too_few_degrees_of_freedom | internal_error | unknown

record solve_result =
  status :: status_type
  sol_x :: vec
  obj_value :: real

record nlp =
  options :: string
  xi :: vec
  xl :: vec
  xu :: vec
  gl :: vec
  gu :: vec
  fg_eval :: FG_eval

type_synonym solver = "nlp \<Rightarrow> solve_result"

definition first_evaluation :: "nlp \<Rightarrow> vec option" where
  "first_evaluation problem =
     operator_call (fg_eval problem) (Dvector (1 + length (gl problem))) (xi problem)"

definition ipopt_solve :: "solver \<Rightarrow> nlp \<Rightarrow> solve_result option" where
  "ipopt_solve solve problem = do {
     fg \<leftarrow> first_evaluation problem;
     Some (solve problem)
   }"

subsection \<open>Solve\<close>

text \<open>The bodies of the loops of lines 141-143, 158-176 and 182-185.\<close>

definition set_both :: "real \<Rightarrow> real \<Rightarrow> nat \<Rightarrow> vec \<times> vec \<Rightarrow> (vec \<times> vec) option" where
  "set_both lo hi i bs = do {
     l \<leftarrow> wr (fst bs) i lo;
     u \<leftarrow> wr (snd bs) i hi;
     Some (l, u)
   }"

text \<open>The string \<open>options\<close> that lines 209-221 of \<open>Solve\<close> put together.\<close>

definition ipopt_options :: string where
  "ipopt_options = ''Integer print_level  0'' @ [CHR 0x0A]
     @ ''Sparse  true        forward'' @ [CHR 0x0A]
     @ ''Sparse  true        reverse'' @ [CHR 0x0A]
     @ ''Numeric max_cpu_time          0.5'' @ [CHR 0x0A]"

text \<open>
  Lines 122-224 of \<open>Solve\<close>: everything up to the call of the solver. The result is
  what the solver is called with.
\<close>

definition Solve_nlp :: "MPC \<Rightarrow> vec \<Rightarrow> vec \<Rightarrow> nlp option" where
  "Solve_nlp self state cs = do {
     x \<leftarrow> rd state 0;
     y \<leftarrow> rd state 1;
     psi \<leftarrow> rd state 2;
     v \<leftarrow> rd state 3;
     cte \<leftarrow> rd state 4;
     epsi \<leftarrow> rd state 5;
     let n_vars = N * 6 + (N - 1) * 2;
     let n_constraints = N * 6;
     let vars = Dvector n_vars;
     vars \<leftarrow> for_loop 0 n_vars (\<lambda>i vars. wr vars i 0) vars;
     vars \<leftarrow> wr vars x_start x;
     vars \<leftarrow> wr vars y_start y;
     vars \<leftarrow> wr vars psi_start psi;
     vars \<leftarrow> wr vars v_start v;
     vars \<leftarrow> wr vars cte_start cte;
     vars \<leftarrow> wr vars epsi_start epsi;
     let vars_bounds = (Dvector n_vars, Dvector n_vars);
     vars_bounds \<leftarrow> for_loop 0 delta_start (set_both (- (10 ^ 19)) (10 ^ 19)) vars_bounds;
     vars_bounds \<leftarrow> for_loop delta_start a_start (set_both (- 0.436332) 0.436332) vars_bounds;
     vars_bounds \<leftarrow> for_loop a_start n_vars (set_both (- 1) 1) vars_bounds;
     let constraints = (Dvector n_constraints, Dvector n_constraints);
     constraints \<leftarrow> for_loop 0 n_constraints (set_both 0 0) constraints;
     constraints_lowerbound \<leftarrow> wr (fst constraints) x_start x;
     constraints_lowerbound \<leftarrow> wr constraints_lowerbound y_start y;
     constraints_lowerbound \<leftarrow> wr constraints_lowerbound psi_start psi;
     constraints_lowerbound \<leftarrow> wr constraints_lowerbound v_start v;
     constraints_lowerbound \<leftarrow> wr constraints_lowerbound cte_start cte;
     constraints_lowerbound \<leftarrow> wr constraints_lowerbound epsi_start epsi;
     constraints_upperbound \<leftarrow> wr (snd constraints) x_start x;
     constraints_upperbound \<leftarrow> wr constraints_upperbound y_start y;
     constraints_upperbound \<leftarrow> wr constraints_upperbound psi_start psi;
     constraints_upperbound \<leftarrow> wr constraints_upperbound v_start v;
     constraints_upperbound \<leftarrow> wr constraints_upperbound cte_start cte;
     constraints_upperbound \<leftarrow> wr constraints_upperbound epsi_start epsi;
     let fg = FG_eval_new cs (m_ref_cte self) (m_ref_epsi self) (m_ref_v self);
     Some \<lparr>options = ipopt_options, xi = vars, xl = fst vars_bounds, xu = snd vars_bounds,
       gl = constraints_lowerbound, gu = constraints_upperbound, fg_eval = fg\<rparr>
   }"

text \<open>
  What a call of \<open>Solve\<close> leaves behind: the cost written to the standard output and
  the vector returned.
\<close>

record Solve_out =
  cout_cost :: real
  ret :: vec

text \<open>
  \<open>MPC::Solve\<close>, lines 121-240: the problem is built, the solver is called with it
  (lines 227-229), and the first actuation of its solution is returned. The flag \<open>ok\<close> is
  computed from the status of the solution at line 232 and read nowhere.
\<close>

definition Solve :: "solver \<Rightarrow> MPC \<Rightarrow> vec \<Rightarrow> vec \<Rightarrow> Solve_out option" where
  "Solve solve self state cs = do {
     let ok = True;
     problem \<leftarrow> Solve_nlp self state cs;
     solution \<leftarrow> ipopt_solve solve problem;
     let ok = (ok \<and> status solution = success);
     let cost = obj_value solution;
     delta \<leftarrow> rd (sol_x solution) delta_start;
     a \<leftarrow> rd (sol_x solution) a_start;
     Some \<lparr>cout_cost = cost, ret = [delta, a]\<rparr>
   }"

subsection \<open>Predict\<close>

text \<open>\<open>MPC::Predict\<close>, lines 242-260; its parameter \<open>dt\<close> hides the constant.\<close>

definition Predict :: "vec \<Rightarrow> vec \<Rightarrow> real \<Rightarrow> cells option" where
  "Predict state actuators dt' = do {
     let next_state = VectorXd (length state);
     x \<leftarrow> rd state 0;
     y \<leftarrow> rd state 1;
     psi \<leftarrow> rd state 2;
     v \<leftarrow> rd state 3;
     delta \<leftarrow> rd actuators 0;
     a \<leftarrow> rd actuators 1;
     next_state \<leftarrow> assign next_state 0 (x + (v * cos psi * dt'));
     next_state \<leftarrow> assign next_state 1 (y + (v * sin psi * dt'));
     next_state \<leftarrow> assign next_state 2 (psi + (v / Lf * delta * dt'));
     next_state \<leftarrow> assign next_state 3 (v + (a * dt'));
     Some next_state
   }"

section \<open>Reading results\<close>

text \<open>
  Component \<open>k\<close> of the vector that a call leaves behind, when the call returns one.
  The solver reads the objective at index 0 of \<open>fg\<close> and constraint \<open>k\<close> at index
  \<open>1 + k\<close>.
\<close>

definition fg_at :: "vec option \<Rightarrow> nat \<Rightarrow> real option" where
  "fg_at r k = Option.bind r (\<lambda>fg. rd fg k)"

text \<open>A solver for tests: it returns the result it is given, whatever the problem.\<close>

definition stub_solver :: "solve_result \<Rightarrow> solver" where
  "stub_solver r problem = r"

text \<open>
  The Trajectory Vector in the words of the specification (section 3), to compare the
  vector of \<open>Solve\<close> and the offsets with: the values of x, of y, of psi, of v, of
  cte and of epsi, then those of delta and of a, one after the other.
\<close>

definition Trajectory_Vector ::
  "vec \<Rightarrow> vec \<Rightarrow> vec \<Rightarrow> vec \<Rightarrow> vec \<Rightarrow> vec \<Rightarrow> vec \<Rightarrow> vec \<Rightarrow> vec" where
  "Trajectory_Vector xs ys psis vs ctes epsis deltas accs =
     xs @ ys @ psis @ vs @ ctes @ epsis @ deltas @ accs"

section \<open>Binary64 arithmetic\<close>

text \<open>
  The numbers of the program are doubles. Above they are the real numbers they stand
  for, which is what a formula of the program means. Where two spellings of one formula
  are compared, the rounding of every single operation counts, and the operations are
  those of binary64: a finite double is \<open>m 2\<^sup>e\<close> for integers \<open>m\<close> and \<open>e\<close> with
  \<open>\<bar>m\<bar> \<le> 2\<^sup>5\<^sup>3\<close>, here the pair \<open>(m, e)\<close>, and an operation returns the double nearest to
  its exact result, the one of even mantissa when two are equally near. Overflow,
  subnormal numbers, infinities and NaN are not part of this: the operations below are
  right where the exact result is zero or of a magnitude from \<open>2\<^sup>-\<^sup>1\<^sup>0\<^sup>2\<^sup>2\<close> to below
  \<open>2\<^sup>1\<^sup>0\<^sup>2\<^sup>4\<close>, and \<open>fdiv\<close> where moreover the divisor is not zero.
\<close>

type_synonym binary64 = "int \<times> int"

definition valof :: "binary64 \<Rightarrow> real" where
  "valof d = of_int (fst d) * 2 ^ nat (snd d) / 2 ^ nat (- snd d)"

text \<open>The number of binary digits of a natural number.\<close>

fun bits :: "nat \<Rightarrow> nat" where
  "bits n = (if n = 0 then 0 else Suc (bits (n div 2)))"

declare bits.simps [simp del]

text \<open>The integer nearest to \<open>p / q\<close>, for \<open>0 < q\<close>; the even one of two equally near.\<close>

definition nearest_even :: "int \<Rightarrow> int \<Rightarrow> int" where
  "nearest_even p q =
     (let d = p div q; r = p mod q
      in if 2 * r < q then d else if q < 2 * r then d + 1 else if even d then d else d + 1)"

text \<open>
  The double nearest to \<open>(p / q) 2\<^sup>e\<close>, for \<open>0 < q\<close>: with \<open>f\<close> the integer for which
  \<open>2\<^sup>f \<le> \<bar>p / q\<bar> < 2\<^sup>f\<^sup>+\<^sup>1\<close> (it is \<open>l\<close> or \<open>l - 1\<close> for the difference \<open>l\<close> of the numbers of
  digits), the mantissa is \<open>p / q\<close> in units of \<open>2\<^sup>f\<^sup>-\<^sup>5\<^sup>2\<close>, rounded to an integer.
\<close>

definition round64 :: "int \<Rightarrow> int \<Rightarrow> int \<Rightarrow> binary64" where
  "round64 p q e =
     (if p = 0 then (0, 0)
      else let l = int (bits (nat \<bar>p\<bar>)) - int (bits (nat q));
               f = (if q * 2 ^ nat l \<le> \<bar>p\<bar> * 2 ^ nat (- l) then l else l - 1);
               k = f - 52
           in (nearest_even (p * 2 ^ nat (- k)) (q * 2 ^ nat k), k + e))"

text \<open>The double of a decimal literal \<open>p / q\<close>, and the product, quotient and sum of doubles.\<close>

definition decimal64 :: "int \<Rightarrow> int \<Rightarrow> binary64" where
  "decimal64 p q = round64 p q 0"




text \<open>The constants of lines 10 and 14, as the doubles of their literals.\<close>

definition Lf64 :: binary64 where "Lf64 = decimal64 267 100"
definition dt64 :: binary64 where "dt64 = decimal64 1 10"









section \<open>Checked access and loops\<close>


lemmas starts = x_start_def y_start_def psi_start_def v_start_def cte_start_def
  epsi_start_def delta_start_def a_start_def

lemma rd_Some: "i < length xs \<Longrightarrow> rd xs i = Some (xs ! i)"
  by (simp add: rd_def)

lemma rd_None: "length xs \<le> i \<Longrightarrow> rd xs i = None"
  by (simp add: rd_def)

lemma wr_Some: "i < length xs \<Longrightarrow> wr xs i v = Some (xs[i := v])"
  by (simp add: wr_def)

lemma add_assign_Some: "i < length xs \<Longrightarrow> add_assign xs i e = Some (xs[i := xs ! i + e])"
  by (simp add: add_assign_def rd_def wr_def)

lemma for_loop_empty: "hi \<le> lo \<Longrightarrow> for_loop lo hi body s = Some s"
  by (simp add: for_loop_def)

lemma for_loop_snoc:
  "lo \<le> hi \<Longrightarrow> for_loop lo (Suc hi) body s = Option.bind (for_loop lo hi body s) (body hi)"
  by (simp add: for_loop_def)

lemma fold_bind_None: "fold (\<lambda>i r. Option.bind r (body i)) is None = None"
  by (induction "is") simp_all

lemma for_loop_first:
  "lo < hi \<Longrightarrow> for_loop lo hi body s = Option.bind (body lo s) (for_loop (Suc lo) hi body)"
  by (cases "body lo s") (simp_all add: for_loop_def upt_conv_Cons fold_bind_None)

lemma for_loop_accum:
  assumes "0 < length fg"
    and "\<And>i g. i < n \<Longrightarrow> length g = length fg \<Longrightarrow> body i g = Some (g[0 := g ! 0 + t i])"
  shows "for_loop 0 n body fg = Some (fg[0 := fg ! 0 + (\<Sum>i<n. t i)])"
  using assms(2)
proof (induction n)
  case 0
  then show ?case by (simp add: for_loop_empty)
next
  case (Suc n)
  then have "for_loop 0 n body fg = Some (fg[0 := fg ! 0 + (\<Sum>i<n. t i)])" by simp
  then show ?case using Suc.prems[of n "fg[0 := fg ! 0 + (\<Sum>i<n. t i)]"] assms(1)
    by (simp add: for_loop_snoc add.assoc)
qed


lemma cost_reference_Some:
  assumes "N * 6 + (N - 1) * 2 \<le> length vars" and "i < N" and "0 < length g"
  shows "cost_reference self vars i g = Some (g[0 := g ! 0 +
     (16 * (vars ! (cte_start + i) - ref_cte self)\<^sup>2
      + 12 * (vars ! (epsi_start + i) - ref_epsi self)\<^sup>2
      + (vars ! (v_start + i) - ref_v self)\<^sup>2)])"
  using assms by (simp add: cost_reference_def rd_Some add_assign_Some starts N_def add.assoc)

lemma cost_actuators_Some:
  assumes "N * 6 + (N - 1) * 2 \<le> length vars" and "i < N - 1" and "0 < length g"
  shows "cost_actuators vars i g = Some (g[0 := g ! 0 +
     (8 * (vars ! (delta_start + i))\<^sup>2 + 6 * (vars ! (a_start + i))\<^sup>2)])"
  using assms by (simp add: cost_actuators_def rd_Some add_assign_Some starts N_def add.assoc)

lemma cost_gaps_Some:
  assumes "N * 6 + (N - 1) * 2 \<le> length vars" and "i < N - 2" and "0 < length g"
  shows "cost_gaps vars i g = Some (g[0 := g ! 0 +
     (400 * (vars ! (delta_start + i + 1) - vars ! (delta_start + i))\<^sup>2
      + 10 * (vars ! (a_start + i + 1) - vars ! (a_start + i))\<^sup>2)])"
  using assms by (simp add: cost_gaps_def rd_Some add_assign_Some starts N_def add.assoc)

lemma constraint_step_Some:
  assumes "N * 6 + (N - 1) * 2 \<le> length vars" and "i < N - 1" and "1 + N * 6 \<le> length g"
    and "4 \<le> length (coeffs self)"
  shows "constraint_step self vars i g = Some (g
    [2 + x_start + i := vars ! (x_start + i + 1)
       - (vars ! (x_start + i) + vars ! (v_start + i) * cos (vars ! (psi_start + i)) * dt),
     2 + y_start + i := vars ! (y_start + i + 1)
       - (vars ! (y_start + i) + vars ! (v_start + i) * sin (vars ! (psi_start + i)) * dt),
     2 + psi_start + i := vars ! (psi_start + i + 1)
       - (vars ! (psi_start + i) + vars ! (v_start + i) * vars ! (delta_start + i) / Lf * dt),
     2 + v_start + i := vars ! (v_start + i + 1)
       - (vars ! (v_start + i) + vars ! (a_start + i) * dt),
     2 + cte_start + i := vars ! (cte_start + i + 1)
       - ((coeffs self ! 0 + coeffs self ! 1 * vars ! (x_start + i)
             + coeffs self ! 2 * (vars ! (x_start + i))\<^sup>2
             + coeffs self ! 3 * vars ! (x_start + i) ^ 3 - vars ! (y_start + i))
          + vars ! (v_start + i) * sin (vars ! (epsi_start + i)) * dt),
     2 + epsi_start + i := vars ! (epsi_start + i + 1)
       - ((vars ! (psi_start + i)
             - arctan (coeffs self ! 1 + 2 * coeffs self ! 3 * vars ! (x_start + i)
                 + 3 * coeffs self ! 3 * (vars ! (x_start + i))\<^sup>2))
          + vars ! (v_start + i) * vars ! (delta_start + i) / Lf * dt)])"
proof -
  from assms(4) have "coeffs self \<noteq> []" by auto
  with assms show ?thesis
    by (simp add: constraint_step_def rd_Some wr_Some starts N_def Let_def)
qed

section \<open>The builder, evaluated\<close>


lemma upd6_frame:
  assumes "k \<noteq> a" "k \<noteq> b" "k \<noteq> c" "k \<noteq> d" "k \<noteq> e" "k \<noteq> f"
  shows "g[a := va, b := vb, c := vc, d := vd, e := ve, f := vf] ! k = g ! k"
  using assms by simp

lemma upd6_new:
  assumes "a < length g" "b < length g" "c < length g" "d < length g" "e < length g" "f < length g"
    and "a < b" "b < c" "c < d" "d < e" "e < f"
  shows "g[a := va, b := vb, c := vc, d := vd, e := ve, f := vf] ! a = va"
    "g[a := va, b := vb, c := vc, d := vd, e := ve, f := vf] ! b = vb"
    "g[a := va, b := vb, c := vc, d := vd, e := ve, f := vf] ! c = vc"
    "g[a := va, b := vb, c := vc, d := vd, e := ve, f := vf] ! d = vd"
    "g[a := va, b := vb, c := vc, d := vd, e := ve, f := vf] ! e = ve"
    "g[a := va, b := vb, c := vc, d := vd, e := ve, f := vf] ! f = vf"
  using assms by simp_all

lemma strided_loop:
  assumes body: "\<And>i g. i < m \<Longrightarrow> L \<le> length g \<Longrightarrow>
      body i g = Some (g[p1 + i := f1 i, p2 + i := f2 i, p3 + i := f3 i,
                         p4 + i := f4 i, p5 + i := f5 i, p6 + i := f6 i])"
    and sep: "p1 + m \<le> p2" "p2 + m \<le> p3" "p3 + m \<le> p4" "p4 + m \<le> p5" "p5 + m \<le> p6"
      "p6 + m \<le> L"
    and g: "L \<le> length g" and n: "n \<le> m"
  shows "\<exists>g'. for_loop 0 n body g = Some g' \<and> length g' = length g
    \<and> (\<forall>k. k < p1 \<or> (p1 + m \<le> k \<and> k < p2) \<or> (p2 + m \<le> k \<and> k < p3)
          \<or> (p3 + m \<le> k \<and> k < p4) \<or> (p4 + m \<le> k \<and> k < p5) \<or> (p5 + m \<le> k \<and> k < p6)
          \<or> p6 + m \<le> k \<longrightarrow> g' ! k = g ! k)
    \<and> (\<forall>i<n. g' ! (p1 + i) = f1 i \<and> g' ! (p2 + i) = f2 i \<and> g' ! (p3 + i) = f3 i
          \<and> g' ! (p4 + i) = f4 i \<and> g' ! (p5 + i) = f5 i \<and> g' ! (p6 + i) = f6 i)"
  using n
proof (induction n)
  case 0
  then show ?case by (simp add: for_loop_empty)
next
  case (Suc n)
  then obtain t where t: "for_loop 0 n body g = Some t" "length t = length g"
    and frame: "\<And>k. k < p1 \<or> (p1 + m \<le> k \<and> k < p2) \<or> (p2 + m \<le> k \<and> k < p3)
          \<or> (p3 + m \<le> k \<and> k < p4) \<or> (p4 + m \<le> k \<and> k < p5) \<or> (p5 + m \<le> k \<and> k < p6)
          \<or> p6 + m \<le> k \<Longrightarrow> t ! k = g ! k"
    and prev: "\<And>i. i < n \<Longrightarrow> t ! (p1 + i) = f1 i \<and> t ! (p2 + i) = f2 i \<and> t ! (p3 + i) = f3 i
          \<and> t ! (p4 + i) = f4 i \<and> t ! (p5 + i) = f5 i \<and> t ! (p6 + i) = f6 i"
    by auto
  from Suc.prems have nm: "n < m" by simp
  let ?t' = "t[p1 + n := f1 n, p2 + n := f2 n, p3 + n := f3 n,
               p4 + n := f4 n, p5 + n := f5 n, p6 + n := f6 n]"
  have b: "body n t = Some ?t'" using body[OF nm, of t] g t(2) by simp
  have run: "for_loop 0 (Suc n) body g = Some ?t'"
    by (simp add: for_loop_snoc t(1) b)
  have len: "length ?t' = length g" using t(2) by simp
  have fr: "?t' ! k = g ! k" if "k < p1 \<or> (p1 + m \<le> k \<and> k < p2) \<or> (p2 + m \<le> k \<and> k < p3)
          \<or> (p3 + m \<le> k \<and> k < p4) \<or> (p4 + m \<le> k \<and> k < p5) \<or> (p5 + m \<le> k \<and> k < p6)
          \<or> p6 + m \<le> k" for k
  proof -
    have "?t' ! k = t ! k"
      using that nm sep by (intro upd6_frame) linarith+
    then show ?thesis using frame[OF that] by simp
  qed
  have old: "?t' ! (p + i) = t ! (p + i)" if "i < n" "p \<in> {p1, p2, p3, p4, p5, p6}" for i p
    using that nm sep by (intro upd6_frame) auto
  have lens: "p1 + n < length t" "p2 + n < length t" "p3 + n < length t" "p4 + n < length t"
    "p5 + n < length t" "p6 + n < length t"
    using nm sep g t(2) by linarith+
  have ord: "p1 + n < p2 + n" "p2 + n < p3 + n" "p3 + n < p4 + n" "p4 + n < p5 + n"
    "p5 + n < p6 + n"
    using nm sep by linarith+
  note new = upd6_new [OF lens ord]
  have all: "?t' ! (p1 + i) = f1 i \<and> ?t' ! (p2 + i) = f2 i \<and> ?t' ! (p3 + i) = f3 i
          \<and> ?t' ! (p4 + i) = f4 i \<and> ?t' ! (p5 + i) = f5 i \<and> ?t' ! (p6 + i) = f6 i"
    if "i < Suc n" for i
  proof (cases "i = n")
    case True
    show ?thesis unfolding True by (intro conjI new)
  next
    case False
    with that have "i < n" by simp
    then show ?thesis using prev[of i] by (simp only: old [OF \<open>i < n\<close>] insert_iff simp_thms)
  qed
  show ?case
    unfolding run using len fr all by blast
qed


lemma cost_loops:
  assumes vars: "N * 6 + (N - 1) * 2 \<le> length vars" and fg: "0 < length fg"
  shows "for_loop 0 N (cost_reference self vars) (fg[0 := c]) = Some (fg[0 := c + (\<Sum>i<N. 16 * (vars ! (cte_start + i) - ref_cte self)\<^sup>2
            + 12 * (vars ! (epsi_start + i) - ref_epsi self)\<^sup>2
            + (vars ! (v_start + i) - ref_v self)\<^sup>2)])"
    and "for_loop 0 (N - 1) (cost_actuators vars) (fg[0 := c]) = Some (fg[0 := c + (\<Sum>i<N - 1. 8 * (vars ! (delta_start + i))\<^sup>2 + 6 * (vars ! (a_start + i))\<^sup>2)])"
    and "for_loop 0 (N - 2) (cost_gaps vars) (fg[0 := c]) = Some (fg[0 := c + (\<Sum>i<N - 2. 400 * (vars ! (delta_start + i + 1) - vars ! (delta_start + i))\<^sup>2
            + 10 * (vars ! (a_start + i + 1) - vars ! (a_start + i))\<^sup>2)])"
  using for_loop_accum [of "fg[0 := c]" N "cost_reference self vars", OF _ cost_reference_Some [OF vars]]
    for_loop_accum [of "fg[0 := c]" "N - 1" "cost_actuators vars", OF _ cost_actuators_Some [OF vars]]
    for_loop_accum [of "fg[0 := c]" "N - 2" "cost_gaps vars", OF _ cost_gaps_Some [OF vars]]
    fg
  by simp_all

lemma operator_call_init:
  assumes vars: "N * 6 + (N - 1) * 2 \<le> length vars" and fg: "1 + N * 6 \<le> length fg"
  shows "operator_call self fg vars = for_loop 0 (N - 1) (constraint_step self vars)
    (fg[0 := (\<Sum>i<N. 16 * (vars ! (cte_start + i) - ref_cte self)\<^sup>2
            + 12 * (vars ! (epsi_start + i) - ref_epsi self)\<^sup>2
            + (vars ! (v_start + i) - ref_v self)\<^sup>2)
        + (\<Sum>i<N - 1. 8 * (vars ! (delta_start + i))\<^sup>2 + 6 * (vars ! (a_start + i))\<^sup>2)
        + (\<Sum>i<N - 2. 400 * (vars ! (delta_start + i + 1) - vars ! (delta_start + i))\<^sup>2
            + 10 * (vars ! (a_start + i + 1) - vars ! (a_start + i))\<^sup>2),
      1 + x_start := vars ! x_start, 1 + y_start := vars ! y_start,
      1 + psi_start := vars ! psi_start, 1 + v_start := vars ! v_start,
      1 + cte_start := vars ! cte_start, 1 + epsi_start := vars ! epsi_start])"
proof -
  let ?S1 = "(\<Sum>i<N. 16 * (vars ! (cte_start + i) - ref_cte self)\<^sup>2
            + 12 * (vars ! (epsi_start + i) - ref_epsi self)\<^sup>2
            + (vars ! (v_start + i) - ref_v self)\<^sup>2)"
  let ?S2 = "(\<Sum>i<N - 1. 8 * (vars ! (delta_start + i))\<^sup>2 + 6 * (vars ! (a_start + i))\<^sup>2)"
  let ?S3 = "(\<Sum>i<N - 2. 400 * (vars ! (delta_start + i + 1) - vars ! (delta_start + i))\<^sup>2
            + 10 * (vars ! (a_start + i + 1) - vars ! (a_start + i))\<^sup>2)"
  from fg have fg0: "0 < length fg" by linarith
  from vars have vars0: "vars \<noteq> []" by (auto simp add: N_def)
  define g4 where "g4 = fg[0 := ?S1 + ?S2 + ?S3]"
  have l1: "for_loop 0 N (cost_reference self vars) (fg[0 := 0]) = Some (fg[0 := ?S1])"
    using cost_loops(1) [OF vars fg0, of self 0] by simp
  have l2: "for_loop 0 (N - 1) (cost_actuators vars) (fg[0 := ?S1]) = Some (fg[0 := ?S1 + ?S2])"
    by (rule cost_loops(2) [OF vars fg0])
  have l3: "for_loop 0 (N - 2) (cost_gaps vars) (fg[0 := ?S1 + ?S2]) = Some g4"
    unfolding g4_def by (rule cost_loops(3) [OF vars fg0])
  have len4: "length g4 = length fg" by (simp add: g4_def)
  have "operator_call self fg vars = for_loop 0 (N - 1) (constraint_step self vars)
    (g4[1 + x_start := vars ! x_start, 1 + y_start := vars ! y_start,
      1 + psi_start := vars ! psi_start, 1 + v_start := vars ! v_start,
      1 + cte_start := vars ! cte_start, 1 + epsi_start := vars ! epsi_start])"
    unfolding operator_call_def
    using vars vars0 fg fg0 l1 l2 l3 len4
    by (simp add: wr_Some rd_Some starts N_def)
  then show ?thesis by (simp only: g4_def)
qed

lemma operator_call_Some:
  assumes vars: "N * 6 + (N - 1) * 2 \<le> length vars" and fg: "1 + N * 6 \<le> length fg"
    and cs: "4 \<le> length (coeffs self)"
  obtains fg' where "operator_call self fg vars = Some fg'" and "length fg' = length fg"
    and "fg' ! 0 = (\<Sum>i<N. 16 * (vars ! (cte_start + i) - ref_cte self)\<^sup>2
            + 12 * (vars ! (epsi_start + i) - ref_epsi self)\<^sup>2
            + (vars ! (v_start + i) - ref_v self)\<^sup>2)
        + (\<Sum>i<N - 1. 8 * (vars ! (delta_start + i))\<^sup>2 + 6 * (vars ! (a_start + i))\<^sup>2)
        + (\<Sum>i<N - 2. 400 * (vars ! (delta_start + i + 1) - vars ! (delta_start + i))\<^sup>2
            + 10 * (vars ! (a_start + i + 1) - vars ! (a_start + i))\<^sup>2)"
    and "fg' ! (1 + x_start) = vars ! x_start" and "fg' ! (1 + y_start) = vars ! y_start"
    and "fg' ! (1 + psi_start) = vars ! psi_start" and "fg' ! (1 + v_start) = vars ! v_start"
    and "fg' ! (1 + cte_start) = vars ! cte_start" and "fg' ! (1 + epsi_start) = vars ! epsi_start"
    and "\<And>i. i < N - 1 \<Longrightarrow> fg' ! (2 + x_start + i) = vars ! (x_start + i + 1)
       - (vars ! (x_start + i) + vars ! (v_start + i) * cos (vars ! (psi_start + i)) * dt)"
    and "\<And>i. i < N - 1 \<Longrightarrow> fg' ! (2 + y_start + i) = vars ! (y_start + i + 1)
       - (vars ! (y_start + i) + vars ! (v_start + i) * sin (vars ! (psi_start + i)) * dt)"
    and "\<And>i. i < N - 1 \<Longrightarrow> fg' ! (2 + psi_start + i) = vars ! (psi_start + i + 1)
       - (vars ! (psi_start + i) + vars ! (v_start + i) * vars ! (delta_start + i) / Lf * dt)"
    and "\<And>i. i < N - 1 \<Longrightarrow> fg' ! (2 + v_start + i) = vars ! (v_start + i + 1)
       - (vars ! (v_start + i) + vars ! (a_start + i) * dt)"
    and "\<And>i. i < N - 1 \<Longrightarrow> fg' ! (2 + cte_start + i) = vars ! (cte_start + i + 1)
       - ((coeffs self ! 0 + coeffs self ! 1 * vars ! (x_start + i)
             + coeffs self ! 2 * (vars ! (x_start + i))\<^sup>2
             + coeffs self ! 3 * vars ! (x_start + i) ^ 3 - vars ! (y_start + i))
          + vars ! (v_start + i) * sin (vars ! (epsi_start + i)) * dt)"
    and "\<And>i. i < N - 1 \<Longrightarrow> fg' ! (2 + epsi_start + i) = vars ! (epsi_start + i + 1)
       - ((vars ! (psi_start + i)
             - arctan (coeffs self ! 1 + 2 * coeffs self ! 3 * vars ! (x_start + i)
                 + 3 * coeffs self ! 3 * (vars ! (x_start + i))\<^sup>2))
          + vars ! (v_start + i) * vars ! (delta_start + i) / Lf * dt)"
proof -
  let ?S1 = "(\<Sum>i<N. 16 * (vars ! (cte_start + i) - ref_cte self)\<^sup>2
            + 12 * (vars ! (epsi_start + i) - ref_epsi self)\<^sup>2
            + (vars ! (v_start + i) - ref_v self)\<^sup>2)"
  let ?S2 = "(\<Sum>i<N - 1. 8 * (vars ! (delta_start + i))\<^sup>2 + 6 * (vars ! (a_start + i))\<^sup>2)"
  let ?S3 = "(\<Sum>i<N - 2. 400 * (vars ! (delta_start + i + 1) - vars ! (delta_start + i))\<^sup>2
            + 10 * (vars ! (a_start + i + 1) - vars ! (a_start + i))\<^sup>2)"
  from fg have fg0: "0 < length fg" by linarith
  define g5 where "g5 = fg[0 := ?S1 + ?S2 + ?S3,
    1 + x_start := vars ! x_start, 1 + y_start := vars ! y_start,
    1 + psi_start := vars ! psi_start, 1 + v_start := vars ! v_start,
    1 + cte_start := vars ! cte_start, 1 + epsi_start := vars ! epsi_start]"
  have len5: "length g5 = length fg" by (simp add: g5_def)
  have g5: "g5 ! 0 = ?S1 + ?S2 + ?S3"
    "g5 ! (1 + x_start) = vars ! x_start" "g5 ! (1 + y_start) = vars ! y_start"
    "g5 ! (1 + psi_start) = vars ! psi_start" "g5 ! (1 + v_start) = vars ! v_start"
    "g5 ! (1 + cte_start) = vars ! cte_start" "g5 ! (1 + epsi_start) = vars ! epsi_start"
    using fg fg0 by (simp_all add: g5_def starts N_def)
  have init: "operator_call self fg vars = for_loop 0 (N - 1) (constraint_step self vars) g5"
    unfolding g5_def by (rule operator_call_init [OF vars fg])
  from fg len5 have fg5: "1 + N * 6 \<le> length g5" by simp
  have "\<exists>g'. for_loop 0 (N - 1) (constraint_step self vars) g5 = Some g' \<and> length g' = length g5
    \<and> (\<forall>k. k < 2 + x_start \<or> (2 + x_start + (N - 1) \<le> k \<and> k < 2 + y_start)
          \<or> (2 + y_start + (N - 1) \<le> k \<and> k < 2 + psi_start)
          \<or> (2 + psi_start + (N - 1) \<le> k \<and> k < 2 + v_start)
          \<or> (2 + v_start + (N - 1) \<le> k \<and> k < 2 + cte_start)
          \<or> (2 + cte_start + (N - 1) \<le> k \<and> k < 2 + epsi_start)
          \<or> 2 + epsi_start + (N - 1) \<le> k \<longrightarrow> g' ! k = g5 ! k)
    \<and> (\<forall>i<N - 1. g' ! (2 + x_start + i) = vars ! (x_start + i + 1)
       - (vars ! (x_start + i) + vars ! (v_start + i) * cos (vars ! (psi_start + i)) * dt)
      \<and> g' ! (2 + y_start + i) = vars ! (y_start + i + 1)
       - (vars ! (y_start + i) + vars ! (v_start + i) * sin (vars ! (psi_start + i)) * dt)
      \<and> g' ! (2 + psi_start + i) = vars ! (psi_start + i + 1)
       - (vars ! (psi_start + i) + vars ! (v_start + i) * vars ! (delta_start + i) / Lf * dt)
      \<and> g' ! (2 + v_start + i) = vars ! (v_start + i + 1)
       - (vars ! (v_start + i) + vars ! (a_start + i) * dt)
      \<and> g' ! (2 + cte_start + i) = vars ! (cte_start + i + 1)
       - ((coeffs self ! 0 + coeffs self ! 1 * vars ! (x_start + i)
             + coeffs self ! 2 * (vars ! (x_start + i))\<^sup>2
             + coeffs self ! 3 * vars ! (x_start + i) ^ 3 - vars ! (y_start + i))
          + vars ! (v_start + i) * sin (vars ! (epsi_start + i)) * dt)
      \<and> g' ! (2 + epsi_start + i) = vars ! (epsi_start + i + 1)
       - ((vars ! (psi_start + i)
             - arctan (coeffs self ! 1 + 2 * coeffs self ! 3 * vars ! (x_start + i)
                 + 3 * coeffs self ! 3 * (vars ! (x_start + i))\<^sup>2))
          + vars ! (v_start + i) * vars ! (delta_start + i) / Lf * dt))"
  proof (rule strided_loop [where m = "N - 1" and L = "1 + N * 6"])
    fix i and g :: vec
    assume "i < N - 1" "1 + N * 6 \<le> length g"
    then show "constraint_step self vars i g = Some (g
      [2 + x_start + i := vars ! (x_start + i + 1)
       - (vars ! (x_start + i) + vars ! (v_start + i) * cos (vars ! (psi_start + i)) * dt),
       2 + y_start + i := vars ! (y_start + i + 1)
       - (vars ! (y_start + i) + vars ! (v_start + i) * sin (vars ! (psi_start + i)) * dt),
       2 + psi_start + i := vars ! (psi_start + i + 1)
       - (vars ! (psi_start + i) + vars ! (v_start + i) * vars ! (delta_start + i) / Lf * dt),
       2 + v_start + i := vars ! (v_start + i + 1)
       - (vars ! (v_start + i) + vars ! (a_start + i) * dt),
       2 + cte_start + i := vars ! (cte_start + i + 1)
       - ((coeffs self ! 0 + coeffs self ! 1 * vars ! (x_start + i)
             + coeffs self ! 2 * (vars ! (x_start + i))\<^sup>2
             + coeffs self ! 3 * vars ! (x_start + i) ^ 3 - vars ! (y_start + i))
          + vars ! (v_start + i) * sin (vars ! (epsi_start + i)) * dt),
       2 + epsi_start + i := vars ! (epsi_start + i + 1)
       - ((vars ! (psi_start + i)
             - arctan (coeffs self ! 1 + 2 * coeffs self ! 3 * vars ! (x_start + i)
                 + 3 * coeffs self ! 3 * (vars ! (x_start + i))\<^sup>2))
          + vars ! (v_start + i) * vars ! (delta_start + i) / Lf * dt)])"
      by (rule constraint_step_Some [OF vars _ _ cs])
  qed (use fg5 in \<open>simp_all add: starts N_def\<close>)
  then obtain g' where run: "for_loop 0 (N - 1) (constraint_step self vars) g5 = Some g'"
    and len: "length g' = length g5"
    and frame: "\<And>k. k < 2 + x_start \<or> (2 + x_start + (N - 1) \<le> k \<and> k < 2 + y_start)
          \<or> (2 + y_start + (N - 1) \<le> k \<and> k < 2 + psi_start)
          \<or> (2 + psi_start + (N - 1) \<le> k \<and> k < 2 + v_start)
          \<or> (2 + v_start + (N - 1) \<le> k \<and> k < 2 + cte_start)
          \<or> (2 + cte_start + (N - 1) \<le> k \<and> k < 2 + epsi_start)
          \<or> 2 + epsi_start + (N - 1) \<le> k \<Longrightarrow> g' ! k = g5 ! k"
    and res: "\<And>i. i < N - 1 \<Longrightarrow> g' ! (2 + x_start + i) = vars ! (x_start + i + 1)
       - (vars ! (x_start + i) + vars ! (v_start + i) * cos (vars ! (psi_start + i)) * dt)
      \<and> g' ! (2 + y_start + i) = vars ! (y_start + i + 1)
       - (vars ! (y_start + i) + vars ! (v_start + i) * sin (vars ! (psi_start + i)) * dt)
      \<and> g' ! (2 + psi_start + i) = vars ! (psi_start + i + 1)
       - (vars ! (psi_start + i) + vars ! (v_start + i) * vars ! (delta_start + i) / Lf * dt)
      \<and> g' ! (2 + v_start + i) = vars ! (v_start + i + 1)
       - (vars ! (v_start + i) + vars ! (a_start + i) * dt)
      \<and> g' ! (2 + cte_start + i) = vars ! (cte_start + i + 1)
       - ((coeffs self ! 0 + coeffs self ! 1 * vars ! (x_start + i)
             + coeffs self ! 2 * (vars ! (x_start + i))\<^sup>2
             + coeffs self ! 3 * vars ! (x_start + i) ^ 3 - vars ! (y_start + i))
          + vars ! (v_start + i) * sin (vars ! (epsi_start + i)) * dt)
      \<and> g' ! (2 + epsi_start + i) = vars ! (epsi_start + i + 1)
       - ((vars ! (psi_start + i)
             - arctan (coeffs self ! 1 + 2 * coeffs self ! 3 * vars ! (x_start + i)
                 + 3 * coeffs self ! 3 * (vars ! (x_start + i))\<^sup>2))
          + vars ! (v_start + i) * vars ! (delta_start + i) / Lf * dt)"
    by blast
  have keep: "g' ! 0 = g5 ! 0" "g' ! (1 + x_start) = g5 ! (1 + x_start)"
    "g' ! (1 + y_start) = g5 ! (1 + y_start)" "g' ! (1 + psi_start) = g5 ! (1 + psi_start)"
    "g' ! (1 + v_start) = g5 ! (1 + v_start)" "g' ! (1 + cte_start) = g5 ! (1 + cte_start)"
    "g' ! (1 + epsi_start) = g5 ! (1 + epsi_start)"
    by (rule frame, simp add: starts N_def)+
  show thesis
  proof (rule that [of g'])
    show "operator_call self fg vars = Some g'" by (simp only: init run)
    show "length g' = length fg" by (simp only: len len5)
  qed (simp_all only: keep g5 res)
qed

lemma constraint_step_short_coeffs:
  assumes "N * 6 + (N - 1) * 2 \<le> length vars" and "i < N - 1" and "length (coeffs self) < 4"
  shows "constraint_step self vars i g = None"
proof -
  from assms(3) consider "rd (coeffs self) 0 = None" | "rd (coeffs self) 1 = None"
    | "rd (coeffs self) 2 = None" | "rd (coeffs self) 3 = None"
    by (auto simp add: rd_def)
  then show ?thesis
    using assms(1,2)
    by cases (simp_all add: constraint_step_def rd_Some starts N_def Let_def
        split: Option.bind_split)
qed

lemma operator_call_short_coeffs:
  assumes vars: "N * 6 + (N - 1) * 2 \<le> length vars" and fg: "1 + N * 6 \<le> length fg"
    and cs: "length (coeffs self) < 4"
  shows "operator_call self fg vars = None"
proof -
  have "0 < N - 1" by (simp add: N_def)
  then show ?thesis
    unfolding operator_call_init [OF vars fg]
    by (simp add: for_loop_first constraint_step_short_coeffs [OF vars _ cs])
qed

section \<open>The problem handed to the solver\<close>


lemma fill_update:
  assumes "lo \<le> n" and "n < length l"
  shows "(take lo l @ replicate (n - lo) a @ drop n l)[n := a]
    = take lo l @ replicate (Suc n - lo) a @ drop (Suc n) l"
  using assms
  by (auto simp add: list_eq_iff_nth_eq nth_list_update nth_append)

lemma wr_loop:
  assumes "lo \<le> hi" and "hi \<le> length l"
  shows "for_loop lo hi (\<lambda>i v. wr v i a) l
    = Some (take lo l @ replicate (hi - lo) a @ drop hi l)"
  using assms
proof (induction hi rule: dec_induct)
  case base
  then show ?case by (simp add: for_loop_empty)
next
  case (step n)
  then have "for_loop lo n (\<lambda>i v. wr v i a) l = Some (take lo l @ replicate (n - lo) a @ drop n l)"
    by simp
  then show ?case using step.hyps step.prems fill_update [of lo n l a]
    by (simp add: for_loop_snoc wr_Some)
qed

lemma set_both_Some:
  "i < length l \<Longrightarrow> i < length u \<Longrightarrow> set_both a b i (l, u) = Some (l[i := a], u[i := b])"
  by (simp add: set_both_def wr_Some)

lemma set_both_loop:
  assumes "lo \<le> hi" and "hi \<le> length l" and "hi \<le> length u"
  shows "for_loop lo hi (set_both a b) (l, u)
    = Some (take lo l @ replicate (hi - lo) a @ drop hi l,
            take lo u @ replicate (hi - lo) b @ drop hi u)"
  using assms
proof (induction hi rule: dec_induct)
  case base
  then show ?case by (simp add: for_loop_empty)
next
  case (step n)
  then have "for_loop lo n (set_both a b) (l, u)
    = Some (take lo l @ replicate (n - lo) a @ drop n l,
            take lo u @ replicate (n - lo) b @ drop n u)"
    by simp
  then have "for_loop lo (Suc n) (set_both a b) (l, u)
    = set_both a b n (take lo l @ replicate (n - lo) a @ drop n l,
                      take lo u @ replicate (n - lo) b @ drop n u)"
    using step.hyps by (simp add: for_loop_snoc)
  then show ?case using step.hyps step.prems fill_update [of lo n l a] fill_update [of lo n u b]
    by (simp add: set_both_Some)
qed


lemma Solve_nlp_Some:
  assumes "6 \<le> length state"
  shows "Solve_nlp self state cs = Some
    \<lparr>options = ipopt_options,
     xi = (replicate (N * 6 + (N - 1) * 2) 0)
       [x_start := state ! 0, y_start := state ! 1, psi_start := state ! 2,
        v_start := state ! 3, cte_start := state ! 4, epsi_start := state ! 5],
     xl = replicate delta_start (- (10 ^ 19)) @ replicate (N - 1) (- 0.436332)
       @ replicate (N - 1) (- 1),
     xu = replicate delta_start (10 ^ 19) @ replicate (N - 1) 0.436332 @ replicate (N - 1) 1,
     gl = (replicate (N * 6) 0)
       [x_start := state ! 0, y_start := state ! 1, psi_start := state ! 2,
        v_start := state ! 3, cte_start := state ! 4, epsi_start := state ! 5],
     gu = (replicate (N * 6) 0)
       [x_start := state ! 0, y_start := state ! 1, psi_start := state ! 2,
        v_start := state ! 3, cte_start := state ! 4, epsi_start := state ! 5],
     fg_eval = FG_eval_new cs (m_ref_cte self) (m_ref_epsi self) (m_ref_v self)\<rparr>"
proof -
  from assms have "state \<noteq> []" by auto
  with assms show ?thesis
    unfolding Solve_nlp_def Let_def Dvector_def
    by (simp add: rd_Some wr_Some wr_loop set_both_loop starts N_def)
qed

lemma Solve_nlp_None:
  assumes "length state < 6"
  shows "Solve_nlp self state cs = None"
  using assms unfolding Solve_nlp_def
  by (auto simp add: rd_def Let_def split: Option.bind_split)

section \<open>The kinematic model of Predict\<close>

text \<open>
  Claim C4: for every state \<open>(x, y, psi, v)\<close>, actuation \<open>(delta, a)\<close> and time step,
  \<open>Predict\<close> returns exactly
  \<open>(x + v cos(psi) dt, y + v sin(psi) dt, psi + (v / Lf) delta dt, v + a dt)\<close> with
  \<open>Lf = 2.67\<close>; with zero actuation the heading and the speed are unchanged and the
  position advances along the heading, and
  \<open>Predict((0, 0, 0, 10), (0, 0), 0.1) = (1.0, 0.0, 0.0, 10.0)\<close>. Numbers are real
  numbers here, so this is the arithmetic of the source without rounding.
\<close>

theorem Predict_kinematic_model:
  "Predict [x, y, psi, v] [delta, a] dt'
     = Some [Some (x + v * cos psi * dt'), Some (y + v * sin psi * dt'),
             Some (psi + (v / Lf) * delta * dt'), Some (v + a * dt')]
   \<and> Lf = 2.67
   \<and> Predict [x, y, psi, v] [0, 0] dt'
     = Some [Some (x + v * cos psi * dt'), Some (y + v * sin psi * dt'), Some psi, Some v]
   \<and> Predict [0, 0, 0, 10] [0, 0] 0.1 = Some [Some 1.0, Some 0.0, Some 0.0, Some 10.0]"
  by (simp add: Predict_def VectorXd_def rd_def assign_def Lf_def)

text \<open>
  Claim C10: the vector that \<open>Predict\<close> returns has the size of the state it is given,
  and only its first four components are assigned: for a state of more than four
  components (the six of the state of \<open>Solve\<close> among them) every component from
  index 4 on is left as the allocation made it, never written.
\<close>

theorem Predict_rest_unassigned:
  assumes "4 < length state" and "2 \<le> length actuators"
  shows "\<exists>next_state. Predict state actuators dt' = Some next_state
    \<and> length next_state = length state
    \<and> (\<forall>i<4. next_state ! i \<noteq> None)
    \<and> (\<forall>i. 4 \<le> i \<and> i < length state \<longrightarrow> next_state ! i = None)"
proof -
  from assms have ne: "state \<noteq> []" "actuators \<noteq> []" by auto
  let ?r = "(replicate (length state) None)
    [0 := Some (state ! 0 + state ! 3 * cos (state ! 2) * dt'),
     1 := Some (state ! 1 + state ! 3 * sin (state ! 2) * dt'),
     2 := Some (state ! 2 + state ! 3 / Lf * (actuators ! 0) * dt'),
     3 := Some (state ! 3 + actuators ! 1 * dt')]"
  have run: "Predict state actuators dt' = Some ?r"
    using assms ne by (simp add: Predict_def VectorXd_def rd_def assign_def)
  have "?r ! i \<noteq> None" if "i < 4" for i
  proof -
    from that consider "i = 0" | "i = 1" | "i = 2" | "i = 3" by linarith
    then show ?thesis using assms(1) ne by cases simp_all
  qed
  moreover have "?r ! i = None" if "4 \<le> i" "i < length state" for i
    using that by simp
  ultimately show ?thesis unfolding run by simp
qed

theorem Predict_rest_unassigned_witness:
  "4 < length [0, 0, 0, 10, 0.5, 0.25 :: real] \<and> 2 \<le> length [0, 0 :: real]
   \<and> (\<exists>next_state. Predict [0, 0, 0, 10, 0.5, 0.25] [0, 0] 0.1 = Some next_state
    \<and> length next_state = length [0, 0, 0, 10, 0.5, 0.25 :: real]
    \<and> (\<forall>i<4. next_state ! i \<noteq> None)
    \<and> (\<forall>i. 4 \<le> i \<and> i < length [0, 0, 0, 10, 0.5, 0.25 :: real] \<longrightarrow> next_state ! i = None))"
  using Predict_rest_unassigned [of "[0, 0, 0, 10, 0.5, 0.25]" "[0, 0]" "0.1"] by simp

section \<open>The objective\<close>

text \<open>
  Claim C9: for every trajectory vector, the objective that the builder writes at index 0
  of \<open>fg\<close> is the sum over all \<open>N\<close> timesteps of
  \<open>16 (cte - cte_ref)\<^sup>2 + 12 (epsi - epsi_ref)\<^sup>2 + 1 (v - v_ref)\<^sup>2\<close>, plus the sum over
  the first \<open>N - 1\<close> timesteps of \<open>8 delta\<^sup>2 + 6 a\<^sup>2\<close>, plus the sum over the timesteps
  \<open>0..N - 3\<close> of \<open>400 (delta\<^sub>t\<^sub>+\<^sub>1 - delta\<^sub>t)\<^sup>2 + 10 (a\<^sub>t\<^sub>+\<^sub>1 - a\<^sub>t)\<^sup>2\<close>. The call returns once
  the vectors have the sizes the solver gives them and there are four coefficients.
\<close>

theorem objective_is_weighted_sum:
  assumes "N * 6 + (N - 1) * 2 \<le> length vars" and "1 + N * 6 \<le> length fg"
    and "4 \<le> length (coeffs self)"
  shows "\<exists>fg'. operator_call self fg vars = Some fg' \<and> fg' ! 0 =
      (\<Sum>t<N. 16 * (vars ! (cte_start + t) - ref_cte self)\<^sup>2
          + 12 * (vars ! (epsi_start + t) - ref_epsi self)\<^sup>2
          + 1 * (vars ! (v_start + t) - ref_v self)\<^sup>2)
    + (\<Sum>t<N - 1. 8 * (vars ! (delta_start + t))\<^sup>2 + 6 * (vars ! (a_start + t))\<^sup>2)
    + (\<Sum>t = 0..N - 3. 400 * (vars ! (delta_start + t + 1) - vars ! (delta_start + t))\<^sup>2
          + 10 * (vars ! (a_start + t + 1) - vars ! (a_start + t))\<^sup>2)"
proof (rule operator_call_Some [OF assms])
  fix fg'
  assume run: "operator_call self fg vars = Some fg'"
    and obj: "fg' ! 0 = (\<Sum>i<N. 16 * (vars ! (cte_start + i) - ref_cte self)\<^sup>2
            + 12 * (vars ! (epsi_start + i) - ref_epsi self)\<^sup>2
            + (vars ! (v_start + i) - ref_v self)\<^sup>2)
        + (\<Sum>i<N - 1. 8 * (vars ! (delta_start + i))\<^sup>2 + 6 * (vars ! (a_start + i))\<^sup>2)
        + (\<Sum>i<N - 2. 400 * (vars ! (delta_start + i + 1) - vars ! (delta_start + i))\<^sup>2
            + 10 * (vars ! (a_start + i + 1) - vars ! (a_start + i))\<^sup>2)"
  have range: "{0..N - 3} = {..<N - 2}" by (auto simp add: N_def)
  show ?thesis
    by (intro exI [of _ fg'] conjI run) (simp only: obj range mult_1)
qed

theorem objective_is_weighted_sum_witness:
  "N * 6 + (N - 1) * 2 \<le> length (replicate 86 (1::real))
   \<and> 1 + N * 6 \<le> length (replicate 67 (0::real))
   \<and> 4 \<le> length (coeffs (FG_eval_new [0, 0, 0, 0] 0 0 40))
   \<and> (\<exists>fg'. operator_call (FG_eval_new [0, 0, 0, 0] 0 0 40) (replicate 67 0) (replicate 86 1)
         = Some fg' \<and> fg' ! 0 = 17179)"
proof -
  have len: "N * 6 + (N - 1) * 2 \<le> length (replicate 86 (1::real))"
    "1 + N * 6 \<le> length (replicate 67 (0::real))"
    "4 \<le> length (coeffs (FG_eval_new [0, 0, 0, 0] 0 0 40))"
    by (simp_all add: N_def FG_eval_new_def)
  have val: "(\<Sum>t<N. 16 * (replicate 86 (1::real) ! (cte_start + t)
            - ref_cte (FG_eval_new [0, 0, 0, 0] 0 0 40))\<^sup>2
          + 12 * (replicate 86 1 ! (epsi_start + t) - ref_epsi (FG_eval_new [0, 0, 0, 0] 0 0 40))\<^sup>2
          + 1 * (replicate 86 1 ! (v_start + t) - ref_v (FG_eval_new [0, 0, 0, 0] 0 0 40))\<^sup>2)
    + (\<Sum>t<N - 1. 8 * (replicate 86 1 ! (delta_start + t))\<^sup>2
          + 6 * (replicate 86 1 ! (a_start + t))\<^sup>2)
    + (\<Sum>t = 0..N - 3. 400 * (replicate 86 1 ! (delta_start + t + 1)
            - replicate 86 1 ! (delta_start + t))\<^sup>2
          + 10 * (replicate 86 1 ! (a_start + t + 1) - replicate 86 1 ! (a_start + t))\<^sup>2)
    = (17179::real)"
    by (simp add: N_def starts FG_eval_new_def)
  from objective_is_weighted_sum [OF len]
  have "\<exists>fg'. operator_call (FG_eval_new [0, 0, 0, 0] 0 0 40) (replicate 67 0) (replicate 86 1)
         = Some fg' \<and> fg' ! 0 = 17179"
    unfolding val .
  with len show ?thesis by blast
qed

section \<open>The heading error and the initial constraints\<close>

lemma fg_at_Some: "k < length fg \<Longrightarrow> fg_at (Some fg) k = Some (fg ! k)"
  by (simp add: fg_at_def rd_def)

text \<open>
  Claim C1: in the builder the desired heading of the heading-error residual is the
  arctangent of the derivative of \<open>f(x) = c0 + c1 x + c2 x\<^sup>2 + c3 x\<^sup>3\<close> at the x of the
  timestep, \<open>atan(c1 + 2 c2 x + 3 c3 x\<^sup>2)\<close>. Line 96 multiplies \<open>2 x\<close> by the coefficient
  of index 3, not by the one of index 2. For \<open>f(x) = x\<^sup>2\<close> and a trajectory vector whose
  only non-zero value is \<open>x = 1\<close> at timestep 0, the residual of \<open>epsi\<close> for the first
  pair of timesteps is 0, and with the heading of the claim it would be \<open>atan 2\<close>.
\<close>

theorem psi_des_residual_at_failing_input:
  "fg_at (operator_call (FG_eval_new [0, 0, 1, 0] 0 0 40) (replicate 67 0)
       ((replicate 86 0)[x_start := 1])) (2 + epsi_start) = Some 0
   \<and> (0::real) - ((0 - arctan (0 + 2 * 1 * 1 + 3 * 0 * 1\<^sup>2)) + 0 * 0 / Lf * dt) \<noteq> 0"
proof -
  let ?self = "FG_eval_new [0, 0, 1, 0] 0 0 40"
  let ?fg = "replicate 67 (0::real)"
  let ?vars = "(replicate 86 (0::real))[x_start := 1]"
  have len: "N * 6 + (N - 1) * 2 \<le> length ?vars" "1 + N * 6 \<le> length ?fg"
    "4 \<le> length (coeffs ?self)"
    by (simp_all add: N_def FG_eval_new_def)
  have "fg_at (operator_call ?self ?fg ?vars) (2 + epsi_start) = Some 0"
  proof (rule operator_call_Some [OF len])
    fix fg'
    assume run: "operator_call ?self ?fg ?vars = Some fg'"
      and l: "length fg' = length ?fg"
      and repsi: "\<And>i. i < N - 1 \<Longrightarrow> fg' ! (2 + epsi_start + i) = ?vars ! (epsi_start + i + 1)
       - ((?vars ! (psi_start + i)
             - arctan (coeffs ?self ! 1 + 2 * coeffs ?self ! 3 * ?vars ! (x_start + i)
                 + 3 * coeffs ?self ! 3 * (?vars ! (x_start + i))\<^sup>2))
          + ?vars ! (v_start + i) * ?vars ! (delta_start + i) / Lf * dt)"
    have "0 < N - 1" by (simp add: N_def)
    from repsi [OF this] have "fg' ! (2 + epsi_start) = 0"
      by (simp add: starts N_def FG_eval_new_def)
    moreover have "2 + epsi_start < length fg'"
      using l by (simp add: starts N_def)
    ultimately show ?thesis
      unfolding run by (simp only: fg_at_Some)
  qed
  then show ?thesis by simp
qed

text \<open>
  Claim C8, as stated: the residual of timestep 0 is the trajectory variable minus the
  component of the initial state. For the state \<open>(1, 0, 0, 0, 0, 0)\<close> and the trajectory
  vector that \<open>Solve\<close> starts from for it, the x residual of timestep 0 is 1, not
  \<open>1 - 1\<close>: the builder has no access to the state and writes the variable itself.
\<close>

theorem initial_residual_counterexample:
  "fg_at (operator_call (FG_eval_new [0, 0, 0, 0] 0 0 40) (replicate 67 0)
       ((replicate 86 0)[x_start := 1])) (1 + x_start)
   \<noteq> Some (((replicate 86 0)[x_start := 1]) ! x_start - [1, 0, 0, 0, 0, 0] ! 0)"
proof -
  let ?self = "FG_eval_new [0, 0, 0, 0] 0 0 40"
  let ?fg = "replicate 67 (0::real)"
  let ?vars = "(replicate 86 (0::real))[x_start := 1]"
  have len: "N * 6 + (N - 1) * 2 \<le> length ?vars" "1 + N * 6 \<le> length ?fg"
    "4 \<le> length (coeffs ?self)"
    by (simp_all add: N_def FG_eval_new_def)
  have "fg_at (operator_call ?self ?fg ?vars) (1 + x_start) = Some 1"
  proof (rule operator_call_Some [OF len])
    fix fg'
    assume run: "operator_call ?self ?fg ?vars = Some fg'"
      and l: "length fg' = length ?fg"
      and r0: "fg' ! (1 + x_start) = ?vars ! x_start"
    from r0 have "fg' ! (1 + x_start) = 1"
      by (simp add: starts)
    moreover have "1 + x_start < length fg'"
      using l by (simp add: starts)
    ultimately show ?thesis
      unfolding run by (simp only: fg_at_Some)
  qed
  then show ?thesis by (simp add: starts)
qed

text \<open>
  Claim C8, amended: the residual of timestep 0 of each of the six state dimensions is
  the trajectory variable itself (constraint \<open>k\<close> is index \<open>1 + k\<close> of \<open>fg\<close>), and the
  constraint bounds that \<open>Solve\<close> builds have length \<open>6 N\<close> and are zero everywhere except
  at the six slots of timestep 0, where the lower and the upper bound are the component
  of the state: the equality with the measured state comes from the bounds.
\<close>

theorem initial_residuals_and_constraint_bounds:
  assumes "N * 6 + (N - 1) * 2 \<le> length vars" and "1 + N * 6 \<le> length fg"
    and "4 \<le> length (coeffs self)" and "6 \<le> length state"
  shows "\<exists>fg' p. operator_call self fg vars = Some fg' \<and> length fg' = length fg
    \<and> fg' ! (1 + x_start) = vars ! x_start \<and> fg' ! (1 + y_start) = vars ! y_start
    \<and> fg' ! (1 + psi_start) = vars ! psi_start \<and> fg' ! (1 + v_start) = vars ! v_start
    \<and> fg' ! (1 + cte_start) = vars ! cte_start \<and> fg' ! (1 + epsi_start) = vars ! epsi_start
    \<and> Solve_nlp mpc state cs = Some p
    \<and> length (gl p) = 6 * N \<and> length (gu p) = 6 * N
    \<and> gl p ! x_start = state ! 0 \<and> gu p ! x_start = state ! 0
    \<and> gl p ! y_start = state ! 1 \<and> gu p ! y_start = state ! 1
    \<and> gl p ! psi_start = state ! 2 \<and> gu p ! psi_start = state ! 2
    \<and> gl p ! v_start = state ! 3 \<and> gu p ! v_start = state ! 3
    \<and> gl p ! cte_start = state ! 4 \<and> gu p ! cte_start = state ! 4
    \<and> gl p ! epsi_start = state ! 5 \<and> gu p ! epsi_start = state ! 5
    \<and> (\<forall>k<6 * N. k \<notin> {x_start, y_start, psi_start, v_start, cte_start, epsi_start}
          \<longrightarrow> gl p ! k = 0 \<and> gu p ! k = 0)"
proof (rule operator_call_Some [OF assms(1-3)])
  fix fg'
  assume run: "operator_call self fg vars = Some fg'" and l: "length fg' = length fg"
    and r: "fg' ! (1 + x_start) = vars ! x_start" "fg' ! (1 + y_start) = vars ! y_start"
      "fg' ! (1 + psi_start) = vars ! psi_start" "fg' ! (1 + v_start) = vars ! v_start"
      "fg' ! (1 + cte_start) = vars ! cte_start" "fg' ! (1 + epsi_start) = vars ! epsi_start"
  let ?g = "(replicate (N * 6) (0::real))
       [x_start := state ! 0, y_start := state ! 1, psi_start := state ! 2,
        v_start := state ! 3, cte_start := state ! 4, epsi_start := state ! 5]"
  note p = Solve_nlp_Some [OF assms(4), of mpc cs]
  have len: "length ?g = 6 * N" by simp
  have pin: "?g ! x_start = state ! 0" "?g ! y_start = state ! 1" "?g ! psi_start = state ! 2"
    "?g ! v_start = state ! 3" "?g ! cte_start = state ! 4" "?g ! epsi_start = state ! 5"
    by (simp_all add: starts N_def)
  have zero: "?g ! k = 0"
    if "k < 6 * N" "k \<notin> {x_start, y_start, psi_start, v_start, cte_start, epsi_start}" for k
    using that by simp
  show ?thesis
    unfolding p
    by (intro exI conjI, rule run, rule l, (rule r)+, rule refl)
      (simp_all only: nlp.simps len pin simp_thms, use zero in blast)
qed


theorem initial_residuals_and_constraint_bounds_witness:
  "N * 6 + (N - 1) * 2 \<le> length (replicate 86 (1::real))
   \<and> 1 + N * 6 \<le> length (replicate 67 (0::real))
   \<and> 4 \<le> length (coeffs (FG_eval_new [0, 0, 0, 0] 0 0 40))
   \<and> 6 \<le> length [1, 2, 0.1, 10, 0.5, 0.25 :: real]
   \<and> (\<exists>fg' p. operator_call (FG_eval_new [0, 0, 0, 0] 0 0 40) (replicate 67 0) (replicate 86 1)
        = Some fg'
    \<and> length fg' = length (replicate 67 (0::real))
    \<and> fg' ! (1 + x_start) = replicate 86 1 ! x_start
    \<and> fg' ! (1 + y_start) = replicate 86 1 ! y_start
    \<and> fg' ! (1 + psi_start) = replicate 86 1 ! psi_start
    \<and> fg' ! (1 + v_start) = replicate 86 1 ! v_start
    \<and> fg' ! (1 + cte_start) = replicate 86 1 ! cte_start
    \<and> fg' ! (1 + epsi_start) = replicate 86 1 ! epsi_start
    \<and> Solve_nlp \<lparr>m_N = 0, m_dt = 0, m_ref_cte = 0, m_ref_epsi = 0, m_ref_v = 40\<rparr>
         [1, 2, 0.1, 10, 0.5, 0.25] [0, 0, 0, 0] = Some p
    \<and> length (gl p) = 6 * N \<and> length (gu p) = 6 * N
    \<and> gl p ! x_start = [1, 2, 0.1, 10, 0.5, 0.25] ! 0
    \<and> gu p ! x_start = [1, 2, 0.1, 10, 0.5, 0.25] ! 0
    \<and> gl p ! y_start = [1, 2, 0.1, 10, 0.5, 0.25] ! 1
    \<and> gu p ! y_start = [1, 2, 0.1, 10, 0.5, 0.25] ! 1
    \<and> gl p ! psi_start = [1, 2, 0.1, 10, 0.5, 0.25] ! 2
    \<and> gu p ! psi_start = [1, 2, 0.1, 10, 0.5, 0.25] ! 2
    \<and> gl p ! v_start = [1, 2, 0.1, 10, 0.5, 0.25] ! 3
    \<and> gu p ! v_start = [1, 2, 0.1, 10, 0.5, 0.25] ! 3
    \<and> gl p ! cte_start = [1, 2, 0.1, 10, 0.5, 0.25] ! 4
    \<and> gu p ! cte_start = [1, 2, 0.1, 10, 0.5, 0.25] ! 4
    \<and> gl p ! epsi_start = [1, 2, 0.1, 10, 0.5, 0.25] ! 5
    \<and> gu p ! epsi_start = [1, 2, 0.1, 10, 0.5, 0.25] ! 5
    \<and> (\<forall>k<6 * N. k \<notin> {x_start, y_start, psi_start, v_start, cte_start, epsi_start}
          \<longrightarrow> gl p ! k = 0 \<and> gu p ! k = 0))"
proof -
  have len: "N * 6 + (N - 1) * 2 \<le> length (replicate 86 (1::real))"
    "1 + N * 6 \<le> length (replicate 67 (0::real))"
    "4 \<le> length (coeffs (FG_eval_new [0, 0, 0, 0] 0 0 40))"
    "6 \<le> length [1, 2, 0.1, 10, 0.5, 0.25 :: real]"
    by (simp_all add: N_def FG_eval_new_def)
  from initial_residuals_and_constraint_bounds [OF len] len show ?thesis
    by (intro conjI)
qed

section \<open>The bounds of the variables\<close>

text \<open>
  Claim C7: for every call of \<open>Solve\<close> the bounds of the variables handed to the solver
  are \<open>-1.0e19\<close> and \<open>1.0e19\<close> at each of the \<open>6 N\<close> slots of the state variables,
  \<open>-0.436332\<close> and \<open>0.436332\<close> at each of the \<open>N - 1\<close> slots of delta, and \<open>-1\<close> and \<open>1\<close>
  at each of the \<open>N - 1\<close> slots of a; the two vectors have the length of the trajectory
  vector, so every slot is covered.
\<close>

theorem variable_bounds:
  assumes "6 \<le> length state"
  shows "\<exists>p. Solve_nlp self state cs = Some p
    \<and> length (xl p) = 6 * N + 2 * (N - 1) \<and> length (xu p) = 6 * N + 2 * (N - 1)
    \<and> (\<forall>k<6 * N. xl p ! k = - (10 ^ 19) \<and> xu p ! k = 10 ^ 19)
    \<and> (\<forall>t<N - 1. xl p ! (delta_start + t) = - 0.436332 \<and> xu p ! (delta_start + t) = 0.436332)
    \<and> (\<forall>t<N - 1. xl p ! (a_start + t) = - 1 \<and> xu p ! (a_start + t) = 1)"
  unfolding Solve_nlp_Some [OF assms]
  by (simp add: nth_append starts N_def)

theorem variable_bounds_witness:
  "6 \<le> length [1, 2, 0.1, 10, 0.5, 0.25 :: real]
   \<and> (\<exists>p. Solve_nlp \<lparr>m_N = 0, m_dt = 0, m_ref_cte = 0, m_ref_epsi = 0, m_ref_v = 40\<rparr>
          [1, 2, 0.1, 10, 0.5, 0.25] [0, 0, 0, 0] = Some p
    \<and> length (xl p) = 6 * N + 2 * (N - 1) \<and> length (xu p) = 6 * N + 2 * (N - 1)
    \<and> (\<forall>k<6 * N. xl p ! k = - (10 ^ 19) \<and> xu p ! k = 10 ^ 19)
    \<and> (\<forall>t<N - 1. xl p ! (delta_start + t) = - 0.436332 \<and> xu p ! (delta_start + t) = 0.436332)
    \<and> (\<forall>t<N - 1. xl p ! (a_start + t) = - 1 \<and> xu p ! (a_start + t) = 1))"
proof -
  have len: "6 \<le> length [1, 2, 0.1, 10, 0.5, 0.25 :: real]" by simp
  note inst = variable_bounds [where self = "\<lparr>m_N = 0, m_dt = 0, m_ref_cte = 0, m_ref_epsi = 0, m_ref_v = 40\<rparr>"
      and cs = "[0, 0, 0, 0]", OF len]
  show ?thesis by (rule conjI, rule len, rule inst)
qed

section \<open>Failures of the solver and of the inputs\<close>

text \<open>
  For vectors of the sizes of the solver, whether the builder stops depends on the
  number of coefficients only, and not on the values it is evaluated at.
\<close>

lemma operator_call_None_iff:
  assumes "N * 6 + (N - 1) * 2 \<le> length vars" and "1 + N * 6 \<le> length fg"
  shows "operator_call self fg vars = None \<longleftrightarrow> length (coeffs self) < 4"
proof (cases "length (coeffs self) < 4")
  case True
  with operator_call_short_coeffs [OF assms] show ?thesis by simp
next
  case False
  then have "4 \<le> length (coeffs self)" by simp
  from operator_call_Some [OF assms this] False show ?thesis
    by (metis option.distinct(1))
qed

lemma Solve_nlp_Some_length:
  assumes "Solve_nlp self state cs = Some p"
  shows "6 \<le> length state"
proof (rule ccontr)
  assume "\<not> 6 \<le> length state"
  then have "Solve_nlp self state cs = None" by (intro Solve_nlp_None) simp
  with assms show False by simp
qed

lemma first_evaluation_of_Solve_nlp:
  assumes "Solve_nlp self state cs = Some p"
  shows "first_evaluation p = None \<longleftrightarrow> length cs < 4"
proof -
  note p = assms [unfolded Solve_nlp_Some [OF Solve_nlp_Some_length [OF assms]], simplified]
  have vars: "N * 6 + (N - 1) * 2 \<le> length (xi p)"
    and fg: "1 + N * 6 \<le> length (Dvector (1 + length (gl p)))"
    and cs: "coeffs (fg_eval p) = cs"
    unfolding p [symmetric] by (simp_all add: Dvector_def FG_eval_new_def)
  show ?thesis
  proof (cases "length cs < 4")
    case True
    then have "length (coeffs (fg_eval p)) < 4" by (simp only: cs)
    from operator_call_short_coeffs [OF vars fg this] True show ?thesis
      by (simp add: first_evaluation_def)
  next
    case False
    then have "4 \<le> length (coeffs (fg_eval p))" by (simp add: cs)
    from operator_call_Some [OF vars fg this] False show ?thesis
      unfolding first_evaluation_def by (metis option.distinct(1))
  qed
qed

lemma Solve_returns:
  assumes "Solve_nlp self state cs = Some p" and "4 \<le> length cs"
  shows "Solve solve self state cs =
    Option.bind (rd (sol_x (solve p)) delta_start) (\<lambda>delta.
      Option.bind (rd (sol_x (solve p)) a_start) (\<lambda>a.
        Some \<lparr>cout_cost = obj_value (solve p), ret = [delta, a]\<rparr>))"
proof -
  from first_evaluation_of_Solve_nlp [OF assms(1)] assms(2)
  obtain fg where "first_evaluation p = Some fg" by fastforce
  then show ?thesis
    by (simp add: Solve_def assms(1) ipopt_solve_def Let_def)
qed


text \<open>
  Claim C2: when the solver ends without reporting success, \<open>Solve\<close> reports the failure
  to its caller as an outcome of its own and does not return the first actuation of the
  solution as if the solve had succeeded. \<open>Solve\<close> computes the flag \<open>ok\<close> from the status
  and never reads it: with a solver that reports \<open>local_infeasibility\<close> it returns the
  actuation found in the solution, and the same outcome as with a solver that reports
  \<open>success\<close> with the same vector.
\<close>

theorem Solve_unchecked_status_at_failing_input:
  "Solve (stub_solver \<lparr>status = local_infeasibility, sol_x = replicate 86 7, obj_value = 3\<rparr>)
       \<lparr>m_N = 0, m_dt = 0, m_ref_cte = 0, m_ref_epsi = 0, m_ref_v = 40\<rparr>
       [1, 2, 0.1, 10, 0.5, 0.25] [0, 0, 0, 0]
     = Some \<lparr>cout_cost = 3, ret = [7, 7]\<rparr>
   \<and> Solve (stub_solver \<lparr>status = success, sol_x = replicate 86 7, obj_value = 3\<rparr>)
       \<lparr>m_N = 0, m_dt = 0, m_ref_cte = 0, m_ref_epsi = 0, m_ref_v = 40\<rparr>
       [1, 2, 0.1, 10, 0.5, 0.25] [0, 0, 0, 0]
     = Some \<lparr>cout_cost = 3, ret = [7, 7]\<rparr>"
proof -
  have len: "6 \<le> length ([1, 2, 0.1, 10, 0.5, 0.25] :: real list)" by simp
  note p = Solve_nlp_Some [OF len, of "\<lparr>m_N = 0, m_dt = 0, m_ref_cte = 0, m_ref_epsi = 0, m_ref_v = 40\<rparr>" "[0, 0, 0, 0]"]
  have cs: "4 \<le> length [0, 0, 0, 0 :: real]" by simp
  show ?thesis
    unfolding Solve_returns [OF p cs]
    by (simp add: stub_solver_def rd_def starts N_def)
qed





section \<open>The layout of the trajectory vector\<close>

lemma initial_vars_concat:
  "(replicate (N * 6 + (N - 1) * 2) (0::real))
       [x_start := s0, y_start := s1, psi_start := s2,
        v_start := s3, cte_start := s4, epsi_start := s5]
   = Trajectory_Vector (s0 # replicate (N - 1) 0) (s1 # replicate (N - 1) 0)
       (s2 # replicate (N - 1) 0) (s3 # replicate (N - 1) 0) (s4 # replicate (N - 1) 0)
       (s5 # replicate (N - 1) 0) (replicate (N - 1) 0) (replicate (N - 1) 0)"
proof -
  have split: "replicate (N * 6 + (N - 1) * 2) (0::real)
    = (0 # replicate (N - 1) 0) @ (0 # replicate (N - 1) 0) @ (0 # replicate (N - 1) 0)
      @ (0 # replicate (N - 1) 0) @ (0 # replicate (N - 1) 0) @ (0 # replicate (N - 1) 0)
      @ replicate (N - 1) 0 @ replicate (N - 1) 0"
    unfolding replicate_add [symmetric] replicate_Suc [symmetric]
    by (simp add: N_def)
  show ?thesis
    unfolding split Trajectory_Vector_def
    by (simp add: starts N_def list_update_append)
qed

lemma Trajectory_Vector_reads:
  assumes "length xs = N" "length ys = N" "length psis = N" "length vs = N"
    "length ctes = N" "length epsis = N" "length deltas = N - 1" "length accs = N - 1"
  shows "length (Trajectory_Vector xs ys psis vs ctes epsis deltas accs) = 6 * N + 2 * (N - 1)"
    and "t < N \<Longrightarrow> rd (Trajectory_Vector xs ys psis vs ctes epsis deltas accs) (x_start + t) = Some (xs ! t)"
    and "t < N \<Longrightarrow> rd (Trajectory_Vector xs ys psis vs ctes epsis deltas accs) (y_start + t) = Some (ys ! t)"
    and "t < N \<Longrightarrow> rd (Trajectory_Vector xs ys psis vs ctes epsis deltas accs) (psi_start + t) = Some (psis ! t)"
    and "t < N \<Longrightarrow> rd (Trajectory_Vector xs ys psis vs ctes epsis deltas accs) (v_start + t) = Some (vs ! t)"
    and "t < N \<Longrightarrow> rd (Trajectory_Vector xs ys psis vs ctes epsis deltas accs) (cte_start + t) = Some (ctes ! t)"
    and "t < N \<Longrightarrow> rd (Trajectory_Vector xs ys psis vs ctes epsis deltas accs) (epsi_start + t) = Some (epsis ! t)"
    and "u < N - 1 \<Longrightarrow> rd (Trajectory_Vector xs ys psis vs ctes epsis deltas accs) (delta_start + u) = Some (deltas ! u)"
    and "u < N - 1 \<Longrightarrow> rd (Trajectory_Vector xs ys psis vs ctes epsis deltas accs) (a_start + u) = Some (accs ! u)"
  using assms by (simp_all add: Trajectory_Vector_def rd_def nth_append starts N_def)

lemma Trajectory_Vector_nth:
  assumes "length xs = N" "length ys = N" "length psis = N" "length vs = N"
    "length ctes = N" "length epsis = N" "length deltas = N - 1" "length accs = N - 1"
  shows "(Trajectory_Vector xs ys psis vs ctes epsis deltas accs) ! x_start = xs ! 0" "(Trajectory_Vector xs ys psis vs ctes epsis deltas accs) ! y_start = ys ! 0" "(Trajectory_Vector xs ys psis vs ctes epsis deltas accs) ! psi_start = psis ! 0" "(Trajectory_Vector xs ys psis vs ctes epsis deltas accs) ! v_start = vs ! 0" "(Trajectory_Vector xs ys psis vs ctes epsis deltas accs) ! cte_start = ctes ! 0" "(Trajectory_Vector xs ys psis vs ctes epsis deltas accs) ! epsi_start = epsis ! 0"
    "t < N \<Longrightarrow> (Trajectory_Vector xs ys psis vs ctes epsis deltas accs) ! (x_start + t) = xs ! t"
    "t < N \<Longrightarrow> (Trajectory_Vector xs ys psis vs ctes epsis deltas accs) ! (y_start + t) = ys ! t"
    "t < N \<Longrightarrow> (Trajectory_Vector xs ys psis vs ctes epsis deltas accs) ! (psi_start + t) = psis ! t"
    "t < N \<Longrightarrow> (Trajectory_Vector xs ys psis vs ctes epsis deltas accs) ! (v_start + t) = vs ! t"
    "t < N \<Longrightarrow> (Trajectory_Vector xs ys psis vs ctes epsis deltas accs) ! (cte_start + t) = ctes ! t"
    "t < N \<Longrightarrow> (Trajectory_Vector xs ys psis vs ctes epsis deltas accs) ! (epsi_start + t) = epsis ! t"
    "t < N - 1 \<Longrightarrow> (Trajectory_Vector xs ys psis vs ctes epsis deltas accs) ! (x_start + t + 1) = xs ! (t + 1)"
    "t < N - 1 \<Longrightarrow> (Trajectory_Vector xs ys psis vs ctes epsis deltas accs) ! (y_start + t + 1) = ys ! (t + 1)"
    "t < N - 1 \<Longrightarrow> (Trajectory_Vector xs ys psis vs ctes epsis deltas accs) ! (psi_start + t + 1) = psis ! (t + 1)"
    "t < N - 1 \<Longrightarrow> (Trajectory_Vector xs ys psis vs ctes epsis deltas accs) ! (v_start + t + 1) = vs ! (t + 1)"
    "t < N - 1 \<Longrightarrow> (Trajectory_Vector xs ys psis vs ctes epsis deltas accs) ! (cte_start + t + 1) = ctes ! (t + 1)"
    "t < N - 1 \<Longrightarrow> (Trajectory_Vector xs ys psis vs ctes epsis deltas accs) ! (epsi_start + t + 1) = epsis ! (t + 1)"
    "u < N - 1 \<Longrightarrow> (Trajectory_Vector xs ys psis vs ctes epsis deltas accs) ! (delta_start + u) = deltas ! u"
    "u < N - 1 \<Longrightarrow> (Trajectory_Vector xs ys psis vs ctes epsis deltas accs) ! (a_start + u) = accs ! u"
    "u < N - 2 \<Longrightarrow> (Trajectory_Vector xs ys psis vs ctes epsis deltas accs) ! (delta_start + u + 1) = deltas ! (u + 1)"
    "u < N - 2 \<Longrightarrow> (Trajectory_Vector xs ys psis vs ctes epsis deltas accs) ! (a_start + u + 1) = accs ! (u + 1)"
  using assms by (simp_all add: Trajectory_Vector_def nth_append starts N_def)

lemma bounds_concat:
  "replicate delta_start a @ replicate (N - 1) b @ replicate (N - 1) c
   = Trajectory_Vector (replicate N a) (replicate N a) (replicate N a) (replicate N a)
       (replicate N a) (replicate N a) (replicate (N - 1) b) (replicate (N - 1) c)"
  by (simp add: Trajectory_Vector_def starts replicate_add)

lemma constraint_bounds_concat:
  "(replicate (N * 6) (0::real))
       [x_start := s0, y_start := s1, psi_start := s2,
        v_start := s3, cte_start := s4, epsi_start := s5]
   = (s0 # replicate (N - 1) 0) @ (s1 # replicate (N - 1) 0) @ (s2 # replicate (N - 1) 0)
       @ (s3 # replicate (N - 1) 0) @ (s4 # replicate (N - 1) 0) @ (s5 # replicate (N - 1) 0)"
proof -
  have split: "replicate (N * 6) (0::real)
    = (0 # replicate (N - 1) 0) @ (0 # replicate (N - 1) 0) @ (0 # replicate (N - 1) 0)
      @ (0 # replicate (N - 1) 0) @ (0 # replicate (N - 1) 0) @ (0 # replicate (N - 1) 0)"
    unfolding replicate_add [symmetric] replicate_Suc [symmetric]
    by (simp add: N_def)
  show ?thesis
    unfolding split
    by (simp add: starts N_def list_update_append)
qed


lemma operator_call_on_layout:
  assumes lens: "length xs = N" "length ys = N" "length psis = N" "length vs = N"
    "length ctes = N" "length epsis = N" "length deltas = N - 1" "length accs = N - 1"
    and fg: "1 + N * 6 \<le> length fg" and cs: "4 \<le> length (coeffs builder)"
    and i: "i < N - 1"
  shows "(\<exists>fg'. operator_call builder fg (Trajectory_Vector xs ys psis vs ctes epsis deltas accs) = Some fg'
        \<and> fg' ! 0 = (\<Sum>j<N. 16 * (ctes ! j - ref_cte builder)\<^sup>2
              + 12 * (epsis ! j - ref_epsi builder)\<^sup>2 + (vs ! j - ref_v builder)\<^sup>2)
          + (\<Sum>j<N - 1. 8 * (deltas ! j)\<^sup>2 + 6 * (accs ! j)\<^sup>2)
          + (\<Sum>j<N - 2. 400 * (deltas ! (j + 1) - deltas ! j)\<^sup>2
              + 10 * (accs ! (j + 1) - accs ! j)\<^sup>2)
        \<and> fg' ! (1 + x_start) = xs ! 0 \<and> fg' ! (1 + y_start) = ys ! 0
        \<and> fg' ! (1 + psi_start) = psis ! 0 \<and> fg' ! (1 + v_start) = vs ! 0
        \<and> fg' ! (1 + cte_start) = ctes ! 0 \<and> fg' ! (1 + epsi_start) = epsis ! 0
        \<and> fg' ! (2 + x_start + i) = xs ! (i + 1)
            - (xs ! i + vs ! i * cos (psis ! i) * dt)
        \<and> fg' ! (2 + y_start + i) = ys ! (i + 1)
            - (ys ! i + vs ! i * sin (psis ! i) * dt)
        \<and> fg' ! (2 + psi_start + i) = psis ! (i + 1)
            - (psis ! i + vs ! i * deltas ! i / Lf * dt)
        \<and> fg' ! (2 + v_start + i) = vs ! (i + 1)
            - (vs ! i + accs ! i * dt)
        \<and> fg' ! (2 + cte_start + i) = ctes ! (i + 1)
            - ((coeffs builder ! 0 + coeffs builder ! 1 * xs ! i
                  + coeffs builder ! 2 * (xs ! i)\<^sup>2
                  + coeffs builder ! 3 * xs ! i ^ 3 - ys ! i)
               + vs ! i * sin (epsis ! i) * dt)
        \<and> fg' ! (2 + epsi_start + i) = epsis ! (i + 1)
            - ((psis ! i
                  - arctan (coeffs builder ! 1 + 2 * coeffs builder ! 3 * xs ! i
                      + 3 * coeffs builder ! 3 * (xs ! i)\<^sup>2))
               + vs ! i * deltas ! i / Lf * dt))"
proof -
  let ?V = "Trajectory_Vector xs ys psis vs ctes epsis deltas accs"
  note n = Trajectory_Vector_nth [OF lens]
  have vars: "N * 6 + (N - 1) * 2 \<le> length ?V"
    using lens by (simp add: Trajectory_Vector_def N_def)
  from i have i': "i < N" by simp
  have S1: "(\<Sum>i<N. 16 * (?V ! (cte_start + i) - ref_cte builder)\<^sup>2
            + 12 * (?V ! (epsi_start + i) - ref_epsi builder)\<^sup>2
            + (?V ! (v_start + i) - ref_v builder)\<^sup>2)
      = (\<Sum>j<N. 16 * (ctes ! j - ref_cte builder)\<^sup>2
              + 12 * (epsis ! j - ref_epsi builder)\<^sup>2 + (vs ! j - ref_v builder)\<^sup>2)"
    by (rule sum.cong) (simp_all add: n)
  have S2: "(\<Sum>i<N - 1. 8 * (?V ! (delta_start + i))\<^sup>2 + 6 * (?V ! (a_start + i))\<^sup>2)
      = (\<Sum>j<N - 1. 8 * (deltas ! j)\<^sup>2 + 6 * (accs ! j)\<^sup>2)"
    by (rule sum.cong) (simp_all add: n)
  have S3: "(\<Sum>i<N - 2. 400 * (?V ! (delta_start + i + 1) - ?V ! (delta_start + i))\<^sup>2
            + 10 * (?V ! (a_start + i + 1) - ?V ! (a_start + i))\<^sup>2)
      = (\<Sum>j<N - 2. 400 * (deltas ! (j + 1) - deltas ! j)\<^sup>2
              + 10 * (accs ! (j + 1) - accs ! j)\<^sup>2)"
  proof (rule sum.cong)
    fix j assume "j \<in> {..<N - 2}"
    then have j: "j < N - 2" "j < N - 1" by simp_all
    show "400 * (?V ! (delta_start + j + 1) - ?V ! (delta_start + j))\<^sup>2
            + 10 * (?V ! (a_start + j + 1) - ?V ! (a_start + j))\<^sup>2
        = 400 * (deltas ! (j + 1) - deltas ! j)\<^sup>2 + 10 * (accs ! (j + 1) - accs ! j)\<^sup>2"
      by (simp only: n(21,22) [OF j(1)] n(19,20) [OF j(2)])
  qed simp
  show ?thesis
  proof (rule operator_call_Some [OF vars fg cs])
    fix fg'
    assume run: "operator_call builder fg ?V = Some fg'"
      and obj: "fg' ! 0 = (\<Sum>i<N. 16 * (?V ! (cte_start + i) - ref_cte builder)\<^sup>2
            + 12 * (?V ! (epsi_start + i) - ref_epsi builder)\<^sup>2
            + (?V ! (v_start + i) - ref_v builder)\<^sup>2)
        + (\<Sum>i<N - 1. 8 * (?V ! (delta_start + i))\<^sup>2 + 6 * (?V ! (a_start + i))\<^sup>2)
        + (\<Sum>i<N - 2. 400 * (?V ! (delta_start + i + 1) - ?V ! (delta_start + i))\<^sup>2
            + 10 * (?V ! (a_start + i + 1) - ?V ! (a_start + i))\<^sup>2)"
      and r0: "fg' ! (1 + x_start) = ?V ! x_start" "fg' ! (1 + y_start) = ?V ! y_start"
        "fg' ! (1 + psi_start) = ?V ! psi_start" "fg' ! (1 + v_start) = ?V ! v_start"
        "fg' ! (1 + cte_start) = ?V ! cte_start" "fg' ! (1 + epsi_start) = ?V ! epsi_start"
      and rx: "\<And>i. i < N - 1 \<Longrightarrow> fg' ! (2 + x_start + i) = ?V ! (x_start + i + 1)
       - (?V ! (x_start + i) + ?V ! (v_start + i) * cos (?V ! (psi_start + i)) * dt)"
      and ry: "\<And>i. i < N - 1 \<Longrightarrow> fg' ! (2 + y_start + i) = ?V ! (y_start + i + 1)
       - (?V ! (y_start + i) + ?V ! (v_start + i) * sin (?V ! (psi_start + i)) * dt)"
      and rpsi: "\<And>i. i < N - 1 \<Longrightarrow> fg' ! (2 + psi_start + i) = ?V ! (psi_start + i + 1)
       - (?V ! (psi_start + i) + ?V ! (v_start + i) * ?V ! (delta_start + i) / Lf * dt)"
      and rv: "\<And>i. i < N - 1 \<Longrightarrow> fg' ! (2 + v_start + i) = ?V ! (v_start + i + 1)
       - (?V ! (v_start + i) + ?V ! (a_start + i) * dt)"
      and rcte: "\<And>i. i < N - 1 \<Longrightarrow> fg' ! (2 + cte_start + i) = ?V ! (cte_start + i + 1)
       - ((coeffs builder ! 0 + coeffs builder ! 1 * ?V ! (x_start + i)
             + coeffs builder ! 2 * (?V ! (x_start + i))\<^sup>2
             + coeffs builder ! 3 * ?V ! (x_start + i) ^ 3 - ?V ! (y_start + i))
          + ?V ! (v_start + i) * sin (?V ! (epsi_start + i)) * dt)"
      and repsi: "\<And>i. i < N - 1 \<Longrightarrow> fg' ! (2 + epsi_start + i) = ?V ! (epsi_start + i + 1)
       - ((?V ! (psi_start + i)
             - arctan (coeffs builder ! 1 + 2 * coeffs builder ! 3 * ?V ! (x_start + i)
                 + 3 * coeffs builder ! 3 * (?V ! (x_start + i))\<^sup>2))
          + ?V ! (v_start + i) * ?V ! (delta_start + i) / Lf * dt)"
    note at_i = n(7-12) [OF i'] n(13-18) [OF i] n(19,20) [OF i]
    show ?thesis
      by (intro exI [of _ fg'] conjI run)
        (simp_all only: obj S1 S2 S3 r0 n(1-6) rx [OF i] ry [OF i] rpsi [OF i] rv [OF i]
          rcte [OF i] repsi [OF i] at_i)
  qed
qed

text \<open>
  Claim C6: the Trajectory Vector that \<open>Solve\<close> builds has length \<open>6 N + 2 (N - 1)\<close> and
  is, in this order, \<open>N\<close> values each of x, y, psi, v, cte and epsi, then \<open>N - 1\<close> values
  of delta and \<open>N - 1\<close> of a. The offsets that \<open>Solve\<close> seeds the initial values and the
  bounds with are the offsets that the builder reads with, and each run of an actuation
  is one shorter than each run of a state.

  \<^item> \<open>Solve\<close>: the start vector is the six components of the state, each followed by
    zeros, then the zeros of the actuations; the bounds of the variables are runs of the
    same lengths, and the bounds of the constraints are the six runs of the states.
  \<^item> A vector of this layout read at \<open>x_start + t\<close>, ..., \<open>a_start + u\<close> gives value \<open>t\<close>
    of x, ..., value \<open>u\<close> of a.
  \<^item> The builder, called on a vector of this layout: the objective is the weighted sum
    over the runs of cte, epsi, v, delta and a; the residuals of timestep 0 are the first
    values of the six runs of the states; the residuals of the timesteps \<open>i\<close>, \<open>i + 1\<close>
    are made of values \<open>i\<close> and \<open>i + 1\<close> of the runs of the states and value \<open>i\<close> of the
    runs of delta and of a.
  \<^item> The runs start \<open>N\<close> apart up to \<open>delta_start\<close> and \<open>N - 1\<close> apart from there to the end.
\<close>

theorem trajectory_vector_layout:
  assumes "6 \<le> length state"
    and "length xs = N" "length ys = N" "length psis = N" "length vs = N"
    "length ctes = N" "length epsis = N" "length deltas = N - 1" "length accs = N - 1"
    and "t < N" and "u < N - 1"
    and "1 + N * 6 \<le> length fg" and "4 \<le> length (coeffs builder)" and "i < N - 1"
  shows "(\<exists>p. Solve_nlp self state cs = Some p
        \<and> length (xi p) = 6 * N + 2 * (N - 1)
        \<and> xi p = Trajectory_Vector (state ! 0 # replicate (N - 1) 0) (state ! 1 # replicate (N - 1) 0)
            (state ! 2 # replicate (N - 1) 0) (state ! 3 # replicate (N - 1) 0)
            (state ! 4 # replicate (N - 1) 0) (state ! 5 # replicate (N - 1) 0)
            (replicate (N - 1) 0) (replicate (N - 1) 0)
        \<and> xl p = Trajectory_Vector (replicate N (- (10 ^ 19))) (replicate N (- (10 ^ 19)))
            (replicate N (- (10 ^ 19))) (replicate N (- (10 ^ 19))) (replicate N (- (10 ^ 19)))
            (replicate N (- (10 ^ 19))) (replicate (N - 1) (- 0.436332)) (replicate (N - 1) (- 1))
        \<and> xu p = Trajectory_Vector (replicate N (10 ^ 19)) (replicate N (10 ^ 19))
            (replicate N (10 ^ 19)) (replicate N (10 ^ 19)) (replicate N (10 ^ 19))
            (replicate N (10 ^ 19)) (replicate (N - 1) 0.436332) (replicate (N - 1) 1)
        \<and> gl p = (state ! 0 # replicate (N - 1) 0) @ (state ! 1 # replicate (N - 1) 0)
            @ (state ! 2 # replicate (N - 1) 0) @ (state ! 3 # replicate (N - 1) 0)
            @ (state ! 4 # replicate (N - 1) 0) @ (state ! 5 # replicate (N - 1) 0)
        \<and> gu p = gl p)
    \<and> length (Trajectory_Vector xs ys psis vs ctes epsis deltas accs) = 6 * N + 2 * (N - 1)
    \<and> rd (Trajectory_Vector xs ys psis vs ctes epsis deltas accs) (x_start + t) = Some (xs ! t)
    \<and> rd (Trajectory_Vector xs ys psis vs ctes epsis deltas accs) (y_start + t) = Some (ys ! t)
    \<and> rd (Trajectory_Vector xs ys psis vs ctes epsis deltas accs) (psi_start + t) = Some (psis ! t)
    \<and> rd (Trajectory_Vector xs ys psis vs ctes epsis deltas accs) (v_start + t) = Some (vs ! t)
    \<and> rd (Trajectory_Vector xs ys psis vs ctes epsis deltas accs) (cte_start + t) = Some (ctes ! t)
    \<and> rd (Trajectory_Vector xs ys psis vs ctes epsis deltas accs) (epsi_start + t) = Some (epsis ! t)
    \<and> rd (Trajectory_Vector xs ys psis vs ctes epsis deltas accs) (delta_start + u) = Some (deltas ! u)
    \<and> rd (Trajectory_Vector xs ys psis vs ctes epsis deltas accs) (a_start + u) = Some (accs ! u)
    \<and> (\<exists>fg'. operator_call builder fg (Trajectory_Vector xs ys psis vs ctes epsis deltas accs) = Some fg'
        \<and> fg' ! 0 = (\<Sum>j<N. 16 * (ctes ! j - ref_cte builder)\<^sup>2
              + 12 * (epsis ! j - ref_epsi builder)\<^sup>2 + (vs ! j - ref_v builder)\<^sup>2)
          + (\<Sum>j<N - 1. 8 * (deltas ! j)\<^sup>2 + 6 * (accs ! j)\<^sup>2)
          + (\<Sum>j<N - 2. 400 * (deltas ! (j + 1) - deltas ! j)\<^sup>2
              + 10 * (accs ! (j + 1) - accs ! j)\<^sup>2)
        \<and> fg' ! (1 + x_start) = xs ! 0 \<and> fg' ! (1 + y_start) = ys ! 0
        \<and> fg' ! (1 + psi_start) = psis ! 0 \<and> fg' ! (1 + v_start) = vs ! 0
        \<and> fg' ! (1 + cte_start) = ctes ! 0 \<and> fg' ! (1 + epsi_start) = epsis ! 0
        \<and> fg' ! (2 + x_start + i) = xs ! (i + 1)
            - (xs ! i + vs ! i * cos (psis ! i) * dt)
        \<and> fg' ! (2 + y_start + i) = ys ! (i + 1)
            - (ys ! i + vs ! i * sin (psis ! i) * dt)
        \<and> fg' ! (2 + psi_start + i) = psis ! (i + 1)
            - (psis ! i + vs ! i * deltas ! i / Lf * dt)
        \<and> fg' ! (2 + v_start + i) = vs ! (i + 1)
            - (vs ! i + accs ! i * dt)
        \<and> fg' ! (2 + cte_start + i) = ctes ! (i + 1)
            - ((coeffs builder ! 0 + coeffs builder ! 1 * xs ! i
                  + coeffs builder ! 2 * (xs ! i)\<^sup>2
                  + coeffs builder ! 3 * xs ! i ^ 3 - ys ! i)
               + vs ! i * sin (epsis ! i) * dt)
        \<and> fg' ! (2 + epsi_start + i) = epsis ! (i + 1)
            - ((psis ! i
                  - arctan (coeffs builder ! 1 + 2 * coeffs builder ! 3 * xs ! i
                      + 3 * coeffs builder ! 3 * (xs ! i)\<^sup>2))
               + vs ! i * deltas ! i / Lf * dt))
    \<and> x_start = 0 \<and> y_start = x_start + N \<and> psi_start = y_start + N \<and> v_start = psi_start + N
    \<and> cte_start = v_start + N \<and> epsi_start = cte_start + N \<and> delta_start = epsi_start + N
    \<and> a_start = delta_start + (N - 1) \<and> 6 * N + 2 * (N - 1) = a_start + (N - 1)"
proof -
  have p: "(\<exists>p. Solve_nlp self state cs = Some p
        \<and> length (xi p) = 6 * N + 2 * (N - 1)
        \<and> xi p = Trajectory_Vector (state ! 0 # replicate (N - 1) 0) (state ! 1 # replicate (N - 1) 0)
            (state ! 2 # replicate (N - 1) 0) (state ! 3 # replicate (N - 1) 0)
            (state ! 4 # replicate (N - 1) 0) (state ! 5 # replicate (N - 1) 0)
            (replicate (N - 1) 0) (replicate (N - 1) 0)
        \<and> xl p = Trajectory_Vector (replicate N (- (10 ^ 19))) (replicate N (- (10 ^ 19)))
            (replicate N (- (10 ^ 19))) (replicate N (- (10 ^ 19))) (replicate N (- (10 ^ 19)))
            (replicate N (- (10 ^ 19))) (replicate (N - 1) (- 0.436332)) (replicate (N - 1) (- 1))
        \<and> xu p = Trajectory_Vector (replicate N (10 ^ 19)) (replicate N (10 ^ 19))
            (replicate N (10 ^ 19)) (replicate N (10 ^ 19)) (replicate N (10 ^ 19))
            (replicate N (10 ^ 19)) (replicate (N - 1) 0.436332) (replicate (N - 1) 1)
        \<and> gl p = (state ! 0 # replicate (N - 1) 0) @ (state ! 1 # replicate (N - 1) 0)
            @ (state ! 2 # replicate (N - 1) 0) @ (state ! 3 # replicate (N - 1) 0)
            @ (state ! 4 # replicate (N - 1) 0) @ (state ! 5 # replicate (N - 1) 0)
        \<and> gu p = gl p)"
    unfolding Solve_nlp_Some [OF assms(1)] initial_vars_concat bounds_concat
      constraint_bounds_concat
    by (simp add: Trajectory_Vector_def N_def)
  have offs: "x_start = 0" "y_start = x_start + N" "psi_start = y_start + N"
    "v_start = psi_start + N" "cte_start = v_start + N" "epsi_start = cte_start + N"
    "delta_start = epsi_start + N" "a_start = delta_start + (N - 1)"
    "6 * N + 2 * (N - 1) = a_start + (N - 1)"
    by (simp_all add: starts N_def)
  note r = Trajectory_Vector_reads [OF assms(2-9)]
  note b = operator_call_on_layout [OF assms(2-9) assms(12-14)]
  show ?thesis
    by (intro conjI p r(1) r(2-7) [OF assms(10)] r(8-9) [OF assms(11)] b offs)
qed


theorem trajectory_vector_layout_witness:
  "6 \<le> length ([1, 2, 0.1, 10, 0.5, 0.25] :: real list)
   \<and> length ((replicate 11 1) :: real list) = N
   \<and> length ((replicate 11 2) :: real list) = N
   \<and> length ((replicate 11 3) :: real list) = N
   \<and> length ((replicate 11 4) :: real list) = N
   \<and> length ((replicate 11 5) :: real list) = N
   \<and> length ((replicate 11 6) :: real list) = N
   \<and> length ((replicate 10 7) :: real list) = N - 1
   \<and> length ((replicate 10 8) :: real list) = N - 1
   \<and> (3::nat) < N
   \<and> (9::nat) < N - 1
   \<and> 1 + N * 6 \<le> length (replicate 67 (0::real))
   \<and> 4 \<le> length (coeffs (FG_eval_new [0, 0, 0, 0] 0 0 40))
   \<and> (3::nat) < N - 1
   \<and> (\<exists>p. Solve_nlp \<lparr>m_N = 0, m_dt = 0, m_ref_cte = 0, m_ref_epsi = 0, m_ref_v = 40\<rparr> [1, 2, 0.1, 10, 0.5, 0.25] [0, 0, 0, 0] = Some p
        \<and> length (xi p) = 6 * N + 2 * (N - 1)
        \<and> xi p = Trajectory_Vector ([1, 2, 0.1, 10, 0.5, 0.25] ! 0 # replicate (N - 1) 0) ([1, 2, 0.1, 10, 0.5, 0.25] ! 1 # replicate (N - 1) 0)
            ([1, 2, 0.1, 10, 0.5, 0.25] ! 2 # replicate (N - 1) 0) ([1, 2, 0.1, 10, 0.5, 0.25] ! 3 # replicate (N - 1) 0)
            ([1, 2, 0.1, 10, 0.5, 0.25] ! 4 # replicate (N - 1) 0) ([1, 2, 0.1, 10, 0.5, 0.25] ! 5 # replicate (N - 1) 0)
            (replicate (N - 1) 0) (replicate (N - 1) 0)
        \<and> xl p = Trajectory_Vector (replicate N (- (10 ^ 19))) (replicate N (- (10 ^ 19)))
            (replicate N (- (10 ^ 19))) (replicate N (- (10 ^ 19))) (replicate N (- (10 ^ 19)))
            (replicate N (- (10 ^ 19))) (replicate (N - 1) (- 0.436332)) (replicate (N - 1) (- 1))
        \<and> xu p = Trajectory_Vector (replicate N (10 ^ 19)) (replicate N (10 ^ 19))
            (replicate N (10 ^ 19)) (replicate N (10 ^ 19)) (replicate N (10 ^ 19))
            (replicate N (10 ^ 19)) (replicate (N - 1) 0.436332) (replicate (N - 1) 1)
        \<and> gl p = ([1, 2, 0.1, 10, 0.5, 0.25] ! 0 # replicate (N - 1) 0) @ ([1, 2, 0.1, 10, 0.5, 0.25] ! 1 # replicate (N - 1) 0)
            @ ([1, 2, 0.1, 10, 0.5, 0.25] ! 2 # replicate (N - 1) 0) @ ([1, 2, 0.1, 10, 0.5, 0.25] ! 3 # replicate (N - 1) 0)
            @ ([1, 2, 0.1, 10, 0.5, 0.25] ! 4 # replicate (N - 1) 0) @ ([1, 2, 0.1, 10, 0.5, 0.25] ! 5 # replicate (N - 1) 0)
        \<and> gu p = gl p)
    \<and> length (Trajectory_Vector (replicate 11 1) (replicate 11 2) (replicate 11 3) (replicate 11 4) (replicate 11 5) (replicate 11 6) (replicate 10 7) (replicate 10 8)) = 6 * N + 2 * (N - 1)
    \<and> rd (Trajectory_Vector (replicate 11 1) (replicate 11 2) (replicate 11 3) (replicate 11 4) (replicate 11 5) (replicate 11 6) (replicate 10 7) (replicate 10 8)) (x_start + 3) = Some ((replicate 11 1) ! 3)
    \<and> rd (Trajectory_Vector (replicate 11 1) (replicate 11 2) (replicate 11 3) (replicate 11 4) (replicate 11 5) (replicate 11 6) (replicate 10 7) (replicate 10 8)) (y_start + 3) = Some ((replicate 11 2) ! 3)
    \<and> rd (Trajectory_Vector (replicate 11 1) (replicate 11 2) (replicate 11 3) (replicate 11 4) (replicate 11 5) (replicate 11 6) (replicate 10 7) (replicate 10 8)) (psi_start + 3) = Some ((replicate 11 3) ! 3)
    \<and> rd (Trajectory_Vector (replicate 11 1) (replicate 11 2) (replicate 11 3) (replicate 11 4) (replicate 11 5) (replicate 11 6) (replicate 10 7) (replicate 10 8)) (v_start + 3) = Some ((replicate 11 4) ! 3)
    \<and> rd (Trajectory_Vector (replicate 11 1) (replicate 11 2) (replicate 11 3) (replicate 11 4) (replicate 11 5) (replicate 11 6) (replicate 10 7) (replicate 10 8)) (cte_start + 3) = Some ((replicate 11 5) ! 3)
    \<and> rd (Trajectory_Vector (replicate 11 1) (replicate 11 2) (replicate 11 3) (replicate 11 4) (replicate 11 5) (replicate 11 6) (replicate 10 7) (replicate 10 8)) (epsi_start + 3) = Some ((replicate 11 6) ! 3)
    \<and> rd (Trajectory_Vector (replicate 11 1) (replicate 11 2) (replicate 11 3) (replicate 11 4) (replicate 11 5) (replicate 11 6) (replicate 10 7) (replicate 10 8)) (delta_start + 9) = Some ((replicate 10 7) ! 9)
    \<and> rd (Trajectory_Vector (replicate 11 1) (replicate 11 2) (replicate 11 3) (replicate 11 4) (replicate 11 5) (replicate 11 6) (replicate 10 7) (replicate 10 8)) (a_start + 9) = Some ((replicate 10 8) ! 9)
    \<and> (\<exists>fg'. operator_call (FG_eval_new [0, 0, 0, 0] 0 0 40) (replicate 67 0) (Trajectory_Vector (replicate 11 1) (replicate 11 2) (replicate 11 3) (replicate 11 4) (replicate 11 5) (replicate 11 6) (replicate 10 7) (replicate 10 8)) = Some fg'
        \<and> fg' ! 0 = (\<Sum>j<N. 16 * ((replicate 11 5) ! j - ref_cte (FG_eval_new [0, 0, 0, 0] 0 0 40))\<^sup>2
              + 12 * ((replicate 11 6) ! j - ref_epsi (FG_eval_new [0, 0, 0, 0] 0 0 40))\<^sup>2 + ((replicate 11 4) ! j - ref_v (FG_eval_new [0, 0, 0, 0] 0 0 40))\<^sup>2)
          + (\<Sum>j<N - 1. 8 * ((replicate 10 7) ! j)\<^sup>2 + 6 * ((replicate 10 8) ! j)\<^sup>2)
          + (\<Sum>j<N - 2. 400 * ((replicate 10 7) ! (j + 1) - (replicate 10 7) ! j)\<^sup>2
              + 10 * ((replicate 10 8) ! (j + 1) - (replicate 10 8) ! j)\<^sup>2)
        \<and> fg' ! (1 + x_start) = (replicate 11 1) ! 0 \<and> fg' ! (1 + y_start) = (replicate 11 2) ! 0
        \<and> fg' ! (1 + psi_start) = (replicate 11 3) ! 0 \<and> fg' ! (1 + v_start) = (replicate 11 4) ! 0
        \<and> fg' ! (1 + cte_start) = (replicate 11 5) ! 0 \<and> fg' ! (1 + epsi_start) = (replicate 11 6) ! 0
        \<and> fg' ! (2 + x_start + 3) = (replicate 11 1) ! (3 + 1)
            - ((replicate 11 1) ! 3 + (replicate 11 4) ! 3 * cos ((replicate 11 3) ! 3) * dt)
        \<and> fg' ! (2 + y_start + 3) = (replicate 11 2) ! (3 + 1)
            - ((replicate 11 2) ! 3 + (replicate 11 4) ! 3 * sin ((replicate 11 3) ! 3) * dt)
        \<and> fg' ! (2 + psi_start + 3) = (replicate 11 3) ! (3 + 1)
            - ((replicate 11 3) ! 3 + (replicate 11 4) ! 3 * (replicate 10 7) ! 3 / Lf * dt)
        \<and> fg' ! (2 + v_start + 3) = (replicate 11 4) ! (3 + 1)
            - ((replicate 11 4) ! 3 + (replicate 10 8) ! 3 * dt)
        \<and> fg' ! (2 + cte_start + 3) = (replicate 11 5) ! (3 + 1)
            - ((coeffs (FG_eval_new [0, 0, 0, 0] 0 0 40) ! 0 + coeffs (FG_eval_new [0, 0, 0, 0] 0 0 40) ! 1 * (replicate 11 1) ! 3
                  + coeffs (FG_eval_new [0, 0, 0, 0] 0 0 40) ! 2 * ((replicate 11 1) ! 3)\<^sup>2
                  + coeffs (FG_eval_new [0, 0, 0, 0] 0 0 40) ! 3 * (replicate 11 1) ! 3 ^ 3 - (replicate 11 2) ! 3)
               + (replicate 11 4) ! 3 * sin ((replicate 11 6) ! 3) * dt)
        \<and> fg' ! (2 + epsi_start + 3) = (replicate 11 6) ! (3 + 1)
            - (((replicate 11 3) ! 3
                  - arctan (coeffs (FG_eval_new [0, 0, 0, 0] 0 0 40) ! 1 + 2 * coeffs (FG_eval_new [0, 0, 0, 0] 0 0 40) ! 3 * (replicate 11 1) ! 3
                      + 3 * coeffs (FG_eval_new [0, 0, 0, 0] 0 0 40) ! 3 * ((replicate 11 1) ! 3)\<^sup>2))
               + (replicate 11 4) ! 3 * (replicate 10 7) ! 3 / Lf * dt))
    \<and> x_start = 0 \<and> y_start = x_start + N \<and> psi_start = y_start + N \<and> v_start = psi_start + N
    \<and> cte_start = v_start + N \<and> epsi_start = cte_start + N \<and> delta_start = epsi_start + N
    \<and> a_start = delta_start + (N - 1) \<and> 6 * N + 2 * (N - 1) = a_start + (N - 1)"
proof -
  have len: "6 \<le> length ([1, 2, 0.1, 10, 0.5, 0.25] :: real list)" "length ((replicate 11 1) :: real list) = N" "length ((replicate 11 2) :: real list) = N" "length ((replicate 11 3) :: real list) = N" "length ((replicate 11 4) :: real list) = N" "length ((replicate 11 5) :: real list) = N" "length ((replicate 11 6) :: real list) = N" "length ((replicate 10 7) :: real list) = N - 1" "length ((replicate 10 8) :: real list) = N - 1" "(3::nat) < N" "(9::nat) < N - 1" "1 + N * 6 \<le> length (replicate 67 (0::real))" "4 \<le> length (coeffs (FG_eval_new [0, 0, 0, 0] 0 0 40))" "(3::nat) < N - 1"
    by (simp_all add: N_def FG_eval_new_def)
  note inst = trajectory_vector_layout [where self = "\<lparr>m_N = 0, m_dt = 0, m_ref_cte = 0, m_ref_epsi = 0, m_ref_v = 40\<rparr>"
      and cs = "[0, 0, 0, 0]", OF len]
  show ?thesis
    by (rule conjI, rule len(1), rule conjI, rule len(2), rule conjI, rule len(3), rule conjI, rule len(4), rule conjI, rule len(5), rule conjI, rule len(6), rule conjI, rule len(7), rule conjI, rule len(8), rule conjI, rule len(9), rule conjI, rule len(10), rule conjI, rule len(11), rule conjI, rule len(12), rule conjI, rule len(13), rule conjI, rule len(14), rule inst)
qed

section \<open>The kinematic model inside the builder\<close>

text \<open>
  The doubles of the literals, and the two spellings of the heading update evaluated
  operation by operation at \<open>psi = 0\<close>, \<open>v = 40\<close>, \<open>delta = 0.436332\<close>.
\<close>

lemmas round64_eval = decimal64_def round64_def bits.simps Let_def nearest_even_def

lemma consts64:
  "decimal64 40 1 = (5629499534213120, - 47)" "decimal64 436332 1000000 = (7860258530439293, - 54)"
  "Lf64 = (6012305502539612, - 51)" "dt64 = (7205759403792794, - 56)"
  by (simp_all add: Lf64_def dt64_def round64_eval)




lemma constants64_nearest:
  "\<bar>valof Lf64 - 2.67\<bar> \<le> 1 / 2 ^ 52" "\<bar>valof dt64 - 0.1\<bar> \<le> 1 / 2 ^ 57"
  by (simp_all add: consts64 valof_def)





end
